theory Spec2Isabelle
  imports Main
begin

section \<open>Time, errors and the model types of \<open>internal/models\<close>\<close>

text \<open>
  Go's \<open>time.Time\<close> is an instant, \<open>time.Duration\<close> a number of nanoseconds. Both are
  integers here: an instant is its number of nanoseconds since the Unix epoch.
  \<open>Time_Unix\<close> is \<open>t.Unix()\<close>: whole seconds, rounded towards minus infinity.
\<close>

type_synonym Time = int
type_synonym Duration = int

definition Time_Add :: "Time \<Rightarrow> Duration \<Rightarrow> Time" where
  "Time_Add t d = t + d"

definition Time_Unix :: "Time \<Rightarrow> int" where
  "Time_Unix t = t div 1000000000"

definition Time_After :: "Time \<Rightarrow> Time \<Rightarrow> bool" where
  "Time_After t u = (u < t)"

definition Time_Before :: "Time \<Rightarrow> Time \<Rightarrow> bool" where
  "Time_Before t u = (t < u)"

text \<open>
  A Go \<open>error\<close> built by \<open>fmt.Errorf\<close> is its message. \<open>Wrapf\<close> is
  \<open>fmt.Errorf("<context>: %w", err)\<close>.
\<close>

datatype error = Errorf string

fun Error :: "error \<Rightarrow> string" where
  "Error (Errorf m) = m"

definition Wrapf :: "string \<Rightarrow> error \<Rightarrow> error" where
  "Wrapf ctxt err = Errorf (ctxt @ '': '' @ Error err)"

text \<open>
  A password hash is the string bcrypt returns. The model keeps what the string encodes:
  the cost, the salt and the password that was hashed; any other string is \<open>NotAHash\<close>.
\<close>

datatype HashedPassword = Bcrypt int string string | NotAHash string

text \<open>\<open>internal/models/user.go\<close>. Field names carry the struct's name, since several
  structs share them.\<close>

record User =
  User_ID :: string
  User_Username :: string
  User_Password :: HashedPassword
  User_Email :: string
  User_Image :: string
  User_CreatedAt :: Time
  User_UpdatedAt :: Time

record UserResponse =
  UserResponse_ID :: string
  UserResponse_Username :: string
  UserResponse_Email :: string
  UserResponse_Image :: string
  UserResponse_CreatedAt :: Time
  UserResponse_UpdatedAt :: Time

definition ToResponse :: "User \<Rightarrow> UserResponse" where
  "ToResponse u =
     \<lparr> UserResponse_ID = User_ID u,
       UserResponse_Username = User_Username u,
       UserResponse_Email = User_Email u,
       UserResponse_Image = User_Image u,
       UserResponse_CreatedAt = User_CreatedAt u,
       UserResponse_UpdatedAt = User_UpdatedAt u \<rparr>"

section \<open>The token library: \<open>github.com/golang-jwt/jwt/v5\<close>\<close>

text \<open>
  The library is a dependency of the repository (v5.2.0 in \<open>IMPLEMENTATION_GUIDE.md\<close>)
  and is not among its files. What \<open>AuthService\<close> calls of it (\<open>jwt.NewWithClaims\<close>,
  \<open>Token.SignedString\<close>, \<open>jwt.Parse\<close> with a key function) is modelled from the spec's
  Token Codec (section 4.1), in the order the spec lists the failures of \<open>verify\<close>:
  malformed, signature, expiry. The type and the required claims are checked by
  \<open>validateToken\<close>, which is in the source.

  A token string is three base64url segments. The model keeps what they encode (the
  header's \<open>alg\<close>, the claims object, the signature) and writes every other string as
  \<open>Malformed\<close> with its text; the empty string is \<open>Malformed []\<close>. A claim value is a
  JSON value; numbers are the integral ones the service writes (\<open>exp\<close>, \<open>iat\<close>).
  An HMAC is symbolic: the algorithm, the key and the signed header and claims.
\<close>

datatype JSONValue = JString string | JNumber int | JBool bool | JNull

type_synonym MapClaims = "(string \<times> JSONValue) list"

datatype Signature = HMAC string string string MapClaims | SignatureBytes string

datatype TokenString = Compact string MapClaims Signature | Malformed string

datatype SigningMethod =
    SigningMethodHMAC string
  | SigningMethodRSA string
  | SigningMethodRSAPSS string
  | SigningMethodECDSA string
  | SigningMethodEd25519
  | SigningMethodNone

record Token =
  Token_Method :: SigningMethod
  Token_Header_alg :: string
  Token_Claims :: MapClaims
  Token_Signature :: Signature
  Token_Valid :: bool

text \<open>
  Whether the hash functions behind the HMAC methods are linked into the running binary
  (\<open>m.Hash.Available()\<close>): the one condition under which the library's HMAC signing
  and verification return an error for a byte-string key. It is a property of the
  process, the same for every call.
\<close>

record Runtime =
  Hash_Available :: bool

text \<open>Modelled from the spec: the signing methods the library registers, by the header's
  \<open>alg\<close> (spec 4.1 names the symmetric one the service signs with, HMAC-SHA256; the
  others are the families a token's header can name instead).\<close>

definition GetSigningMethod :: "string \<Rightarrow> SigningMethod option" where
  "GetSigningMethod alg =
     (if alg \<in> set [''HS256'', ''HS384'', ''HS512''] then Some (SigningMethodHMAC alg)
      else if alg \<in> set [''RS256'', ''RS384'', ''RS512''] then Some (SigningMethodRSA alg)
      else if alg \<in> set [''PS256'', ''PS384'', ''PS512''] then Some (SigningMethodRSAPSS alg)
      else if alg \<in> set [''ES256'', ''ES384'', ''ES512''] then Some (SigningMethodECDSA alg)
      else if alg = ''EdDSA'' then Some SigningMethodEd25519
      else if alg = ''none'' then Some SigningMethodNone
      else None)"

text \<open>Modelled from the spec: \<open>jwt.NewWithClaims(jwt.SigningMethodHS256, claims)\<close> of the
  library, an unsigned and not yet valid token.\<close>

definition NewWithClaims_HS256 :: "MapClaims \<Rightarrow> Token" where
  "NewWithClaims_HS256 claims =
     \<lparr> Token_Method = SigningMethodHMAC ''HS256'',
       Token_Header_alg = ''HS256'',
       Token_Claims = claims,
       Token_Signature = SignatureBytes [],
       Token_Valid = False \<rparr>"

text \<open>
  Modelled from the spec: \<open>token.SignedString(key)\<close> of the library, for a byte-string
  key (spec 4.1, \<open>issue\<close>: the claims serialised and signed with a symmetric key). The
  source handles an error of this call after every token it generates; for an HMAC
  method the call has one, the hash function not being available. The other methods
  refuse a byte-string key.
\<close>

definition SignedString :: "Runtime \<Rightarrow> Token \<Rightarrow> string \<Rightarrow> error + TokenString" where
  "SignedString rt token key =
     (case Token_Method token of
        SigningMethodHMAC alg \<Rightarrow>
          if Hash_Available rt
          then Inr (Compact (Token_Header_alg token) (Token_Claims token)
                      (HMAC alg key (Token_Header_alg token) (Token_Claims token)))
          else Inl (Errorf ''the requested hash function is unavailable'')
      | _ \<Rightarrow> Inl (Errorf ''key is of invalid type''))"

text \<open>Modelled from the spec: \<open>Method.Verify(signingString, signature, key)\<close> of the
  library for a byte-string key (spec 4.1: ``fails with InvalidSignature if the signature
  does not match''); \<open>None\<close> is Go's \<open>nil\<close>.\<close>

definition SigningMethod_Verify ::
  "Runtime \<Rightarrow> SigningMethod \<Rightarrow> string \<Rightarrow> MapClaims \<Rightarrow> Signature \<Rightarrow> string \<Rightarrow> error option" where
  "SigningMethod_Verify rt m hdr claims sg key =
     (case m of
        SigningMethodHMAC alg \<Rightarrow>
          if \<not> Hash_Available rt
          then Some (Errorf ''the requested hash function is unavailable'')
          else if sg = HMAC alg key hdr claims then None
          else Some (Errorf ''signature is invalid'')
      | _ \<Rightarrow> Some (Errorf ''key is of invalid type''))"

text \<open>
  Modelled from the spec: the library's claims validator, which \<open>jwt.Parse\<close> runs after
  the signature check. Spec 4.1: verify ``fails with Expired if current time is past
  expires-at''; spec 8: ``a token with exp set to exactly now must be treated as
  expired''. \<open>exp\<close> and \<open>nbf\<close> are whole seconds; the instant of validation is compared
  with the start of that second. A token without \<open>exp\<close> is not rejected for it; a value
  that is not a number is.
\<close>

definition verifyExpiresAt :: "MapClaims \<Rightarrow> Time \<Rightarrow> error option" where
  "verifyExpiresAt claims now =
     (case map_of claims ''exp'' of
        None \<Rightarrow> None
      | Some (JNumber exp) \<Rightarrow>
          if Time_Before now (exp * 1000000000) then None
          else Some (Errorf ''token is expired'')
      | Some _ \<Rightarrow> Some (Errorf ''exp is invalid''))"

definition verifyNotBefore :: "MapClaims \<Rightarrow> Time \<Rightarrow> error option" where
  "verifyNotBefore claims now =
     (case map_of claims ''nbf'' of
        None \<Rightarrow> None
      | Some (JNumber nbf) \<Rightarrow>
          if Time_Before now (nbf * 1000000000) then Some (Errorf ''token is not valid yet'')
          else None
      | Some _ \<Rightarrow> Some (Errorf ''nbf is invalid''))"

definition Validator_Validate :: "MapClaims \<Rightarrow> Time \<Rightarrow> error option" where
  "Validator_Validate claims now =
     (case verifyExpiresAt claims now of
        Some err \<Rightarrow> Some err
      | None \<Rightarrow> verifyNotBefore claims now)"

text \<open>
  Modelled from the spec: \<open>jwt.Parse(tokenString, keyFunc)\<close> of the library at the
  instant \<open>now\<close> (spec 4.1, \<open>verify\<close>): split and decode the segments, look the signing
  method up, ask the key function for the key, verify the signature, validate the
  claims, and only then mark the token valid.
\<close>

definition Parse ::
  "Runtime \<Rightarrow> Time \<Rightarrow> TokenString \<Rightarrow> (Token \<Rightarrow> error + string) \<Rightarrow> error + Token" where
  "Parse rt now tokenString keyFunc =
     (case tokenString of
        Malformed _ \<Rightarrow> Inl (Errorf ''token is malformed'')
      | Compact alg claims sg \<Rightarrow>
          (case GetSigningMethod alg of
             None \<Rightarrow> Inl (Errorf ''token is unverifiable: signing method (alg) is unavailable'')
           | Some m \<Rightarrow>
               (let token = \<lparr> Token_Method = m, Token_Header_alg = alg, Token_Claims = claims,
                              Token_Signature = sg, Token_Valid = False \<rparr>
                in case keyFunc token of
                     Inl err \<Rightarrow>
                       Inl (Wrapf ''token is unverifiable: error while executing keyfunc'' err)
                   | Inr key \<Rightarrow>
                       (case SigningMethod_Verify rt m alg claims sg key of
                          Some err \<Rightarrow> Inl (Wrapf ''token signature is invalid'' err)
                        | None \<Rightarrow>
                            (case Validator_Validate claims now of
                               Some err \<Rightarrow> Inl (Wrapf ''token has invalid claims'' err)
                             | None \<Rightarrow> Inr (token\<lparr> Token_Valid := True \<rparr>))))))"

section \<open>The token codec of \<open>AuthService\<close> (package \<open>services\<close>)\<close>

text \<open>\<open>internal/config/config.go\<close>: \<open>JWTConfig\<close>.\<close>

record JWTConfig =
  Secret :: string
  AccessExpiry :: Duration
  RefreshExpiry :: Duration
  Issuer :: string

text \<open>Package \<open>models\<close>: the claims a validated token yields, and the two token
  types.\<close>

record Claims =
  Claims_UserID :: string
  Claims_Username :: string
  Claims_SessionID :: string
  Claims_Type :: string

definition TokenTypeAccess :: string where
  "TokenTypeAccess = ''access''"

definition TokenTypeRefresh :: string where
  "TokenTypeRefresh = ''refresh''"

text \<open>\<open>RedisSessionStore\<close> holds its key prefix; the Redis server it talks to is part
  of the world the operations run in (below).\<close>

record RedisSessionStore =
  prefix :: string

text \<open>\<open>AuthService\<close>: the user repository and the logger carry no data of their own;
  what they act on is the world passed to each operation.\<close>

record AuthService =
  sessionStore :: RedisSessionStore
  config :: JWTConfig
  bcryptCost :: int

text \<open>\<open>generateAccessToken\<close> and \<open>generateRefreshToken\<close>, with \<open>now\<close> for
  \<open>time.Now()\<close>.\<close>

definition generateAccessToken ::
  "AuthService \<Rightarrow> Runtime \<Rightarrow> Time \<Rightarrow> string \<Rightarrow> string \<Rightarrow> string \<Rightarrow> error + TokenString" where
  "generateAccessToken s rt now userID username sessionID =
     (let claims = \<lparr> Claims_UserID = userID, Claims_Username = username,
                      Claims_SessionID = sessionID, Claims_Type = TokenTypeAccess \<rparr>;
          token = NewWithClaims_HS256
            [(''userId'', JString (Claims_UserID claims)),
             (''username'', JString (Claims_Username claims)),
             (''sessionId'', JString (Claims_SessionID claims)),
             (''type'', JString (Claims_Type claims)),
             (''iss'', JString (Issuer (config s))),
             (''exp'', JNumber (Time_Unix (Time_Add now (AccessExpiry (config s))))),
             (''iat'', JNumber (Time_Unix now))]
      in SignedString rt token (Secret (config s)))"

definition generateRefreshToken ::
  "AuthService \<Rightarrow> Runtime \<Rightarrow> Time \<Rightarrow> string \<Rightarrow> string \<Rightarrow> string \<Rightarrow> error + TokenString" where
  "generateRefreshToken s rt now userID username sessionID =
     (let claims = \<lparr> Claims_UserID = userID, Claims_Username = username,
                      Claims_SessionID = sessionID, Claims_Type = TokenTypeRefresh \<rparr>;
          token = NewWithClaims_HS256
            [(''userId'', JString (Claims_UserID claims)),
             (''username'', JString (Claims_Username claims)),
             (''sessionId'', JString (Claims_SessionID claims)),
             (''type'', JString (Claims_Type claims)),
             (''iss'', JString (Issuer (config s))),
             (''exp'', JNumber (Time_Unix (Time_Add now (RefreshExpiry (config s))))),
             (''iat'', JNumber (Time_Unix now))]
      in SignedString rt token (Secret (config s)))"

text \<open>The key function \<open>validateToken\<close> hands to \<open>jwt.Parse\<close>: only a method of type
  \<open>*jwt.SigningMethodHMAC\<close> gets the secret.\<close>

definition keyFunc :: "AuthService \<Rightarrow> Token \<Rightarrow> error + string" where
  "keyFunc s token =
     (case Token_Method token of
        SigningMethodHMAC _ \<Rightarrow> Inr (Secret (config s))
      | _ \<Rightarrow> Inl (Errorf (''unexpected signing method: '' @ Token_Header_alg token)))"

text \<open>\<open>claims[key].(string)\<close> with the \<open>ok\<close> flag dropped: the empty string when the
  claim is absent or not a string. In \<open>validateToken\<close> the claims of a parsed token are
  always a \<open>jwt.MapClaims\<close>, so the source's branch \<open>invalid token claims\<close> has no
  counterpart; a \<open>type\<close> claim that is absent or not a string fails the \<open>ok\<close> test.\<close>

definition stringClaim :: "MapClaims \<Rightarrow> string \<Rightarrow> string" where
  "stringClaim claims k = (case map_of claims k of Some (JString v) \<Rightarrow> v | _ \<Rightarrow> [])"

definition validateToken ::
  "AuthService \<Rightarrow> Runtime \<Rightarrow> Time \<Rightarrow> TokenString \<Rightarrow> string \<Rightarrow> error + Claims" where
  "validateToken s rt now tokenString expectedType =
     (case Parse rt now tokenString (keyFunc s) of
        Inl err \<Rightarrow> Inl (Wrapf ''failed to parse token'' err)
      | Inr token \<Rightarrow>
          if \<not> Token_Valid token then Inl (Errorf ''invalid token'')
          else
            (let claims = Token_Claims token in
             case map_of claims ''type'' of
               Some (JString tokenType) \<Rightarrow>
                 if tokenType \<noteq> expectedType then Inl (Errorf ''invalid token type'')
                 else
                   (let userID = stringClaim claims ''userId'';
                        username = stringClaim claims ''username'';
                        sessionID = stringClaim claims ''sessionId''
                    in if userID = [] \<or> username = [] \<or> sessionID = []
                       then Inl (Errorf ''missing required claims'')
                       else Inr \<lparr> Claims_UserID = userID, Claims_Username = username,
                                  Claims_SessionID = sessionID, Claims_Type = tokenType \<rparr>)
             | _ \<Rightarrow> Inl (Errorf ''invalid token type'')))"

definition ValidateAccessToken ::
  "AuthService \<Rightarrow> Runtime \<Rightarrow> Time \<Rightarrow> TokenString \<Rightarrow> error + Claims" where
  "ValidateAccessToken s rt now tokenString = validateToken s rt now tokenString TokenTypeAccess"

section \<open>Passwords: \<open>golang.org/x/crypto/bcrypt\<close>\<close>

text \<open>
  The library is a dependency (v0.18.0 in \<open>IMPLEMENTATION_GUIDE.md\<close>), modelled by what
  its two entry points return. \<open>GenerateFromPassword\<close> draws a random salt (the argument
  \<open>salt\<close>), replaces a cost below 4 by the default 10, refuses a cost above 31 and a
  password of more than 72 bytes. \<open>CompareHashAndPassword\<close> returns \<open>nil\<close> (\<open>None\<close>)
  exactly for the password that was hashed.
\<close>

definition GenerateFromPassword :: "string \<Rightarrow> string \<Rightarrow> int \<Rightarrow> error + HashedPassword" where
  "GenerateFromPassword salt password cost =
     (if 72 < length password
      then Inl (Errorf ''bcrypt: password length exceeds 72 bytes'')
      else if 31 < (if cost < 4 then 10 else cost)
      then Inl (Errorf ''crypto/bcrypt: cost is outside allowed inclusive range 4..31'')
      else Inr (Bcrypt (if cost < 4 then 10 else cost) salt password))"

definition CompareHashAndPassword :: "HashedPassword \<Rightarrow> string \<Rightarrow> error option" where
  "CompareHashAndPassword hashedPassword password =
     (case hashedPassword of
        NotAHash _ \<Rightarrow> Some (Errorf ''crypto/bcrypt: hashedSecret too short to be a bcrypted password'')
      | Bcrypt cost salt p \<Rightarrow>
          if p = password then None
          else Some (Errorf ''crypto/bcrypt: hashedPassword is not the hash of the given password''))"

definition hashPassword :: "AuthService \<Rightarrow> string \<Rightarrow> string \<Rightarrow> error + HashedPassword" where
  "hashPassword s salt password =
     (case GenerateFromPassword salt password (bcryptCost s) of
        Inl err \<Rightarrow> Inl err
      | Inr hashedBytes \<Rightarrow> Inr hashedBytes)"

definition verifyPassword :: "AuthService \<Rightarrow> HashedPassword \<Rightarrow> string \<Rightarrow> error option" where
  "verifyPassword s hashedPassword password = CompareHashAndPassword hashedPassword password"

section \<open>The user repository (\<open>internal/repository/mongodb/user.go\<close>)\<close>

text \<open>
  The database is a list of documents and a flag saying whether the server answers.
  The collection has a unique index on \<open>username\<close> and a unique sparse index on
  \<open>email\<close> (\<open>scripts/mongo-init.js\<close>; the SQL schema declares the same two columns
  \<open>UNIQUE\<close>); an empty email is not stored (\<open>omitempty\<close>) and so not indexed.
\<close>

record MongoUser =
  MongoUser_ID :: string
  MongoUser_Username :: string
  MongoUser_PasswordHash :: HashedPassword
  MongoUser_Email :: string
  MongoUser_Image :: string
  MongoUser_CreatedAt :: Time
  MongoUser_UpdatedAt :: Time
  MongoUser_DeletedAt :: "Time option"

record MongoCollection =
  documents :: "MongoUser list"
  reachable :: bool

definition ErrNoDocuments :: error where
  "ErrNoDocuments = Errorf ''mongo: no documents in result''"

definition ErrServerSelection :: error where
  "ErrServerSelection = Errorf ''server selection error''"

definition InsertOne :: "MongoCollection \<Rightarrow> MongoUser \<Rightarrow> error option \<times> MongoCollection" where
  "InsertOne coll doc =
     (if \<not> reachable coll then (Some ErrServerSelection, coll)
      else if list_ex (\<lambda>d. MongoUser_Username d = MongoUser_Username doc) (documents coll)
      then (Some (Errorf ''E11000 duplicate key error: username''), coll)
      else if MongoUser_Email doc \<noteq> [] \<and>
              list_ex (\<lambda>d. MongoUser_Email d = MongoUser_Email doc) (documents coll)
      then (Some (Errorf ''E11000 duplicate key error: email''), coll)
      else (None, coll\<lparr> documents := documents coll @ [doc] \<rparr>))"

definition FindOne :: "MongoCollection \<Rightarrow> (MongoUser \<Rightarrow> bool) \<Rightarrow> error + MongoUser" where
  "FindOne coll matches =
     (if \<not> reachable coll then Inl ErrServerSelection
      else case find matches (documents coll) of
             None \<Rightarrow> Inl ErrNoDocuments
           | Some doc \<Rightarrow> Inr doc)"

definition CountDocuments :: "MongoCollection \<Rightarrow> (MongoUser \<Rightarrow> bool) \<Rightarrow> error + nat" where
  "CountDocuments coll matches =
     (if \<not> reachable coll then Inl ErrServerSelection
      else Inr (length (filter matches (documents coll))))"

definition mongoUserToModel :: "MongoUser \<Rightarrow> User" where
  "mongoUserToModel mongoUser =
     \<lparr> User_ID = MongoUser_ID mongoUser,
       User_Username = MongoUser_Username mongoUser,
       User_Password = MongoUser_PasswordHash mongoUser,
       User_Email = MongoUser_Email mongoUser,
       User_Image = MongoUser_Image mongoUser,
       User_CreatedAt = MongoUser_CreatedAt mongoUser,
       User_UpdatedAt = MongoUser_UpdatedAt mongoUser \<rparr>"

text \<open>\<open>Create\<close>: \<open>ulid\<close> is the identifier drawn for the new user, \<open>now\<close> the clock.\<close>

definition userRepository_Create ::
  "Time \<Rightarrow> string \<Rightarrow> MongoCollection \<Rightarrow> User \<Rightarrow> (error + User) \<times> MongoCollection" where
  "userRepository_Create now ulid coll user =
     (let mongoUser =
            \<lparr> MongoUser_ID = ulid,
              MongoUser_Username = User_Username user,
              MongoUser_PasswordHash = User_Password user,
              MongoUser_Email = User_Email user,
              MongoUser_Image = User_Image user,
              MongoUser_CreatedAt = now,
              MongoUser_UpdatedAt = now,
              MongoUser_DeletedAt = None \<rparr>
      in case InsertOne coll mongoUser of
           (Some err, coll') \<Rightarrow> (Inl (Wrapf ''failed to create user'' err), coll')
         | (None, coll') \<Rightarrow> (Inr (mongoUserToModel mongoUser), coll'))"

definition userRepository_GetByUsername :: "MongoCollection \<Rightarrow> string \<Rightarrow> error + User" where
  "userRepository_GetByUsername coll username =
     (case FindOne coll (\<lambda>d. MongoUser_Username d = username \<and> MongoUser_DeletedAt d = None) of
        Inl err \<Rightarrow>
          if err = ErrNoDocuments then Inl (Errorf ''user not found'')
          else Inl (Wrapf ''failed to get user'' err)
      | Inr mongoUser \<Rightarrow> Inr (mongoUserToModel mongoUser))"

definition userRepository_GetByEmail :: "MongoCollection \<Rightarrow> string \<Rightarrow> error + User" where
  "userRepository_GetByEmail coll email =
     (if email = [] then Inl (Errorf ''email cannot be empty'')
      else
        case FindOne coll (\<lambda>d. MongoUser_Email d = email \<and> MongoUser_DeletedAt d = None) of
          Inl err \<Rightarrow>
            if err = ErrNoDocuments then Inl (Errorf ''user not found'')
            else Inl (Wrapf ''failed to get user'' err)
        | Inr mongoUser \<Rightarrow> Inr (mongoUserToModel mongoUser))"

definition userRepository_ExistsByEmail :: "MongoCollection \<Rightarrow> string \<Rightarrow> error + bool" where
  "userRepository_ExistsByEmail coll email =
     (if email = [] then Inr False
      else
        case CountDocuments coll
               (\<lambda>d. MongoUser_Email d = email \<and> MongoUser_DeletedAt d = None) of
          Inl err \<Rightarrow> Inl (Wrapf ''failed to check if user exists'' err)
        | Inr count \<Rightarrow> Inr (0 < count))"

definition userRepository_ExistsByUsername :: "MongoCollection \<Rightarrow> string \<Rightarrow> error + bool" where
  "userRepository_ExistsByUsername coll username =
     (case CountDocuments coll
             (\<lambda>d. MongoUser_Username d = username \<and> MongoUser_DeletedAt d = None) of
        Inl err \<Rightarrow> Inl (Wrapf ''failed to check if user exists'' err)
      | Inr count \<Rightarrow> Inr (0 < count))"

section \<open>The session store (\<open>RedisSessionStore\<close>, package \<open>services\<close>)\<close>

text \<open>Package \<open>models\<close>: a session.\<close>

record Session =
  Session_ID :: string
  Session_UserID :: string
  Session_CreatedAt :: Time
  Session_ExpiresAt :: Time
  Session_IsActive :: bool

text \<open>
  The Redis server: its keys, each with a value and an optional time to expire; whether
  it answers; and the commands the client has sent, in order. A value is the JSON text
  of a session, or any other text. A key whose time has come is gone.
\<close>

datatype RedisValue = SessionJSON Session | OtherText string

record RedisEntry =
  entry_value :: RedisValue
  entry_expireAt :: "Time option"

datatype RedisCommand = SET string | GET string | DEL string

record Redis =
  keyspace :: "string \<Rightarrow> RedisEntry option"
  connected :: bool
  commands :: "RedisCommand list"

definition redis_Nil :: error where
  "redis_Nil = Errorf ''redis: nil''"

definition ErrClosed :: error where
  "ErrClosed = Errorf ''redis: client is closed''"

definition live :: "Time \<Rightarrow> RedisEntry \<Rightarrow> bool" where
  "live now e = (case entry_expireAt e of None \<Rightarrow> True | Some t \<Rightarrow> now < t)"

definition client_Set ::
  "Time \<Rightarrow> string \<Rightarrow> RedisValue \<Rightarrow> Duration \<Rightarrow> Redis \<Rightarrow> error option \<times> Redis" where
  "client_Set now key data expiration r =
     (let r1 = r\<lparr> commands := commands r @ [SET key] \<rparr> in
      if \<not> connected r then (Some ErrClosed, r1)
      else (None, r1\<lparr> keyspace := (keyspace r)(key \<mapsto>
              \<lparr> entry_value = data,
                entry_expireAt = (if 0 < expiration then Some (now + expiration) else None) \<rparr>) \<rparr>))"

definition client_Get :: "Time \<Rightarrow> string \<Rightarrow> Redis \<Rightarrow> (error + RedisValue) \<times> Redis" where
  "client_Get now key r =
     (let r1 = r\<lparr> commands := commands r @ [GET key] \<rparr> in
      if \<not> connected r then (Inl ErrClosed, r1)
      else case keyspace r key of
             None \<Rightarrow> (Inl redis_Nil, r1)
           | Some e \<Rightarrow> if live now e then (Inr (entry_value e), r1) else (Inl redis_Nil, r1))"

definition client_Del :: "Time \<Rightarrow> string \<Rightarrow> Redis \<Rightarrow> (error + int) \<times> Redis" where
  "client_Del now key r =
     (let r1 = r\<lparr> commands := commands r @ [DEL key] \<rparr> in
      if \<not> connected r then (Inl ErrClosed, r1)
      else case keyspace r key of
             None \<Rightarrow> (Inr 0, r1)
           | Some e \<Rightarrow>
               if live now e then (Inr 1, r1\<lparr> keyspace := (keyspace r)(key := None) \<rparr>)
               else (Inr 0, r1\<lparr> keyspace := (keyspace r)(key := None) \<rparr>))"

text \<open>\<open>encoding/json\<close> on a session: marshalling a \<open>Session\<close> cannot fail;
  unmarshalling fails on text that is not a session's JSON.\<close>

definition json_Marshal :: "Session \<Rightarrow> error + RedisValue" where
  "json_Marshal session = Inr (SessionJSON session)"

definition json_Unmarshal :: "RedisValue \<Rightarrow> error + Session" where
  "json_Unmarshal data =
     (case data of
        SessionJSON session \<Rightarrow> Inr session
      | OtherText _ \<Rightarrow> Inl (Errorf ''invalid character''))"

definition getKey :: "RedisSessionStore \<Rightarrow> string \<Rightarrow> string" where
  "getKey st sessionID = prefix st @ sessionID"

definition NewRedisSessionStore :: RedisSessionStore where
  "NewRedisSessionStore = \<lparr> prefix = ''session:'' \<rparr>"

definition RedisSessionStore_Set ::
  "RedisSessionStore \<Rightarrow> Time \<Rightarrow> string \<Rightarrow> Session \<Rightarrow> Duration \<Rightarrow> Redis \<Rightarrow> error option \<times> Redis" where
  "RedisSessionStore_Set st now sessionID session expiration r =
     (let key = getKey st sessionID in
      case json_Marshal session of
        Inl err \<Rightarrow> (Some (Wrapf ''failed to marshal session'' err), r)
      | Inr data \<Rightarrow>
          (case client_Set now key data expiration r of
             (Some err, r') \<Rightarrow> (Some (Wrapf ''failed to store session'' err), r')
           | (None, r') \<Rightarrow> (None, r')))"

definition RedisSessionStore_Get ::
  "RedisSessionStore \<Rightarrow> Time \<Rightarrow> string \<Rightarrow> Redis \<Rightarrow> (error + Session) \<times> Redis" where
  "RedisSessionStore_Get st now sessionID r =
     (let key = getKey st sessionID in
      case client_Get now key r of
        (Inl err, r') \<Rightarrow>
          if err = redis_Nil then (Inl (Errorf ''session not found''), r')
          else (Inl (Wrapf ''failed to get session'' err), r')
      | (Inr data, r') \<Rightarrow>
          (case json_Unmarshal data of
             Inl err \<Rightarrow> (Inl (Wrapf ''failed to unmarshal session'' err), r')
           | Inr session \<Rightarrow> (Inr session, r')))"

definition RedisSessionStore_Delete ::
  "RedisSessionStore \<Rightarrow> Time \<Rightarrow> string \<Rightarrow> Redis \<Rightarrow> error option \<times> Redis" where
  "RedisSessionStore_Delete st now sessionID r =
     (let key = getKey st sessionID in
      case client_Del now key r of
        (Inl err, r') \<Rightarrow> (Some (Wrapf ''failed to delete session'' err), r')
      | (Inr result, r') \<Rightarrow>
          if result = 0 then (Some (Errorf ''session not found''), r')
          else (None, r'))"

section \<open>The operations of \<open>AuthService\<close> (package \<open>services\<close>)\<close>

text \<open>Package \<open>models\<close>: requests and responses. A token field holds a token string.\<close>

record LoginRequest =
  LoginRequest_Username :: string
  LoginRequest_Password :: string

record LoginByEmailRequest =
  LoginByEmailRequest_Email :: string
  LoginByEmailRequest_Password :: string

record LoginResponse =
  LoginResponse_AccessToken :: TokenString
  LoginResponse_RefreshToken :: TokenString
  LoginResponse_ExpiresAt :: Time
  LoginResponse_User :: UserResponse

record RefreshTokenRequest =
  RefreshTokenRequest_RefreshToken :: TokenString

record RefreshTokenResponse =
  RefreshTokenResponse_AccessToken :: TokenString
  RefreshTokenResponse_ExpiresAt :: Time

record RegisterRequest =
  RegisterRequest_Username :: string
  RegisterRequest_Password :: string
  RegisterRequest_Email :: string
  RegisterRequest_Image :: string

record RegisterResponse =
  RegisterResponse_User :: UserResponse
  RegisterResponse_Message :: string

record LogoutRequest =
  LogoutRequest_RefreshToken :: TokenString

record LogoutResponse =
  LogoutResponse_Message :: string

text \<open>
  The state the service acts on through its two collaborators: the users' collection
  and the Redis server. Every operation takes the world and returns it, changed or not,
  beside its result. \<open>now\<close> is the clock of the call; \<open>ulid\<close> is the identifier the call
  draws (\<open>ulid.MustNew\<close>), \<open>salt\<close> the salt bcrypt draws.
\<close>

record World =
  users :: MongoCollection
  sessions :: Redis

text \<open>The zero \<open>time.Time\<close> (1 January of year 1) and the fields Go leaves at their zero
  value in \<open>&models.User{...}\<close>.\<close>

definition zeroTime :: Time where
  "zeroTime = - 62135596800000000000"

definition Register ::
  "AuthService \<Rightarrow> Time \<Rightarrow> string \<Rightarrow> string \<Rightarrow> RegisterRequest \<Rightarrow> World
     \<Rightarrow> (error + RegisterResponse) \<times> World" where
  "Register s now ulid salt req w =
     (case userRepository_ExistsByUsername (users w) (RegisterRequest_Username req) of
        Inl err \<Rightarrow> (Inl (Wrapf ''failed to check username'' err), w)
      | Inr exists \<Rightarrow>
          if exists then (Inl (Errorf ''username already exists''), w)
          else
            (case (if RegisterRequest_Email req \<noteq> []
                   then (case userRepository_ExistsByEmail (users w) (RegisterRequest_Email req) of
                           Inl err \<Rightarrow> Some (Wrapf ''failed to check email'' err)
                         | Inr exists \<Rightarrow>
                             if exists then Some (Errorf ''email already exists'') else None)
                   else None) of
               Some err \<Rightarrow> (Inl err, w)
             | None \<Rightarrow>
                 (case hashPassword s salt (RegisterRequest_Password req) of
                    Inl err \<Rightarrow> (Inl (Wrapf ''failed to hash password'' err), w)
                  | Inr hashedPassword \<Rightarrow>
                      (let user = \<lparr> User_ID = [],
                                    User_Username = RegisterRequest_Username req,
                                    User_Password = hashedPassword,
                                    User_Email = RegisterRequest_Email req,
                                    User_Image = RegisterRequest_Image req,
                                    User_CreatedAt = zeroTime,
                                    User_UpdatedAt = zeroTime \<rparr>
                       in case userRepository_Create now ulid (users w) user of
                            (Inl err, coll') \<Rightarrow>
                              (Inl (Wrapf ''failed to create user'' err), w\<lparr> users := coll' \<rparr>)
                          | (Inr createdUser, coll') \<Rightarrow>
                              (Inr \<lparr> RegisterResponse_User = ToResponse createdUser,
                                     RegisterResponse_Message = ''User registered successfully'' \<rparr>,
                               w\<lparr> users := coll' \<rparr>)))))"

definition Login ::
  "AuthService \<Rightarrow> Runtime \<Rightarrow> Time \<Rightarrow> string \<Rightarrow> LoginRequest \<Rightarrow> World
     \<Rightarrow> (error + LoginResponse) \<times> World" where
  "Login s rt now ulid req w =
     (case userRepository_GetByUsername (users w) (LoginRequest_Username req) of
        Inl err \<Rightarrow> (Inl (Errorf ''invalid credentials''), w)
      | Inr user \<Rightarrow>
          (case verifyPassword s (User_Password user) (LoginRequest_Password req) of
             Some err \<Rightarrow> (Inl (Errorf ''invalid credentials''), w)
           | None \<Rightarrow>
               (let sessionID = ulid;
                    session = \<lparr> Session_ID = sessionID,
                                Session_UserID = User_ID user,
                                Session_CreatedAt = now,
                                Session_ExpiresAt = Time_Add now (RefreshExpiry (config s)),
                                Session_IsActive = True \<rparr>
                in case RedisSessionStore_Set (sessionStore s) now sessionID session
                          (RefreshExpiry (config s)) (sessions w) of
                     (Some err, r') \<Rightarrow>
                       (Inl (Wrapf ''failed to create session'' err), w\<lparr> sessions := r' \<rparr>)
                   | (None, r') \<Rightarrow>
                       (case generateAccessToken s rt now (User_ID user) (User_Username user)
                               sessionID of
                          Inl err \<Rightarrow>
                            (Inl (Wrapf ''failed to generate access token'' err),
                             w\<lparr> sessions := r' \<rparr>)
                        | Inr accessToken \<Rightarrow>
                            (case generateRefreshToken s rt now (User_ID user)
                                    (User_Username user) sessionID of
                               Inl err \<Rightarrow>
                                 (Inl (Wrapf ''failed to generate refresh token'' err),
                                  w\<lparr> sessions := r' \<rparr>)
                             | Inr refreshToken \<Rightarrow>
                                 (Inr \<lparr> LoginResponse_AccessToken = accessToken,
                                        LoginResponse_RefreshToken = refreshToken,
                                        LoginResponse_ExpiresAt =
                                          Time_Add now (AccessExpiry (config s)),
                                        LoginResponse_User = ToResponse user \<rparr>,
                                  w\<lparr> sessions := r' \<rparr>))))))"

definition LoginByEmail ::
  "AuthService \<Rightarrow> Runtime \<Rightarrow> Time \<Rightarrow> string \<Rightarrow> LoginByEmailRequest \<Rightarrow> World
     \<Rightarrow> (error + LoginResponse) \<times> World" where
  "LoginByEmail s rt now ulid req w =
     (case userRepository_GetByEmail (users w) (LoginByEmailRequest_Email req) of
        Inl err \<Rightarrow> (Inl (Errorf ''invalid credentials''), w)
      | Inr user \<Rightarrow>
          (case verifyPassword s (User_Password user) (LoginByEmailRequest_Password req) of
             Some err \<Rightarrow> (Inl (Errorf ''invalid credentials''), w)
           | None \<Rightarrow>
               (let sessionID = ulid;
                    session = \<lparr> Session_ID = sessionID,
                                Session_UserID = User_ID user,
                                Session_CreatedAt = now,
                                Session_ExpiresAt = Time_Add now (RefreshExpiry (config s)),
                                Session_IsActive = True \<rparr>
                in case RedisSessionStore_Set (sessionStore s) now sessionID session
                          (RefreshExpiry (config s)) (sessions w) of
                     (Some err, r') \<Rightarrow>
                       (Inl (Wrapf ''failed to create session'' err), w\<lparr> sessions := r' \<rparr>)
                   | (None, r') \<Rightarrow>
                       (case generateAccessToken s rt now (User_ID user) (User_Username user)
                               sessionID of
                          Inl err \<Rightarrow>
                            (Inl (Wrapf ''failed to generate access token'' err),
                             w\<lparr> sessions := r' \<rparr>)
                        | Inr accessToken \<Rightarrow>
                            (case generateRefreshToken s rt now (User_ID user)
                                    (User_Username user) sessionID of
                               Inl err \<Rightarrow>
                                 (Inl (Wrapf ''failed to generate refresh token'' err),
                                  w\<lparr> sessions := r' \<rparr>)
                             | Inr refreshToken \<Rightarrow>
                                 (Inr \<lparr> LoginResponse_AccessToken = accessToken,
                                        LoginResponse_RefreshToken = refreshToken,
                                        LoginResponse_ExpiresAt =
                                          Time_Add now (AccessExpiry (config s)),
                                        LoginResponse_User = ToResponse user \<rparr>,
                                  w\<lparr> sessions := r' \<rparr>))))))"

definition RefreshToken ::
  "AuthService \<Rightarrow> Runtime \<Rightarrow> Time \<Rightarrow> RefreshTokenRequest \<Rightarrow> World
     \<Rightarrow> (error + RefreshTokenResponse) \<times> World" where
  "RefreshToken s rt now req w =
     (case validateToken s rt now (RefreshTokenRequest_RefreshToken req) TokenTypeRefresh of
        Inl err \<Rightarrow> (Inl (Errorf ''invalid refresh token''), w)
      | Inr claims \<Rightarrow>
          (case RedisSessionStore_Get (sessionStore s) now (Claims_SessionID claims) (sessions w) of
             (Inl err, r') \<Rightarrow> (Inl (Errorf ''invalid session''), w\<lparr> sessions := r' \<rparr>)
           | (Inr session, r') \<Rightarrow>
               if \<not> Session_IsActive session \<or> Time_After now (Session_ExpiresAt session)
               then (Inl (Errorf ''session expired''), w\<lparr> sessions := r' \<rparr>)
               else
                 (case generateAccessToken s rt now (Claims_UserID claims)
                         (Claims_Username claims) (Claims_SessionID claims) of
                    Inl err \<Rightarrow>
                      (Inl (Wrapf ''failed to generate access token'' err),
                       w\<lparr> sessions := r' \<rparr>)
                  | Inr accessToken \<Rightarrow>
                      (Inr \<lparr> RefreshTokenResponse_AccessToken = accessToken,
                             RefreshTokenResponse_ExpiresAt =
                               Time_Add now (AccessExpiry (config s)) \<rparr>,
                       w\<lparr> sessions := r' \<rparr>))))"

definition Logout ::
  "AuthService \<Rightarrow> Runtime \<Rightarrow> Time \<Rightarrow> LogoutRequest \<Rightarrow> World
     \<Rightarrow> (error + LogoutResponse) \<times> World" where
  "Logout s rt now req w =
     (let w' =
            (if LogoutRequest_RefreshToken req \<noteq> Malformed []
             then (case validateToken s rt now (LogoutRequest_RefreshToken req) TokenTypeRefresh of
                     Inr claims \<Rightarrow>
                       (case RedisSessionStore_Delete (sessionStore s) now
                               (Claims_SessionID claims) (sessions w) of
                          (Some err, r') \<Rightarrow> w\<lparr> sessions := r' \<rparr>
                        | (None, r') \<Rightarrow> w\<lparr> sessions := r' \<rparr>)
                   | Inl err \<Rightarrow> w)
             else w)
      in (Inr \<lparr> LogoutResponse_Message = ''Logged out successfully'' \<rparr>, w'))"

section \<open>Concrete inputs\<close>

text \<open>The configuration of the repository's tests (\<open>auth_test.go\<close>), a process in which
  the hash is available and one in which it is not, one stored user, a stored session,
  a stored session whose expiry has passed, and two requests. Instants are nanoseconds:
  the tokens below are issued at second 5.\<close>

definition s0 :: AuthService where
  "s0 = \<lparr> sessionStore = NewRedisSessionStore,
          config = \<lparr> Secret = ''test-secret'', AccessExpiry = 3600000000000,
                     RefreshExpiry = 86400000000000, Issuer = ''test-issuer'' \<rparr>,
          bcryptCost = 4 \<rparr>"

definition rt0 :: Runtime where
  "rt0 = \<lparr> Hash_Available = True \<rparr>"

definition accessClaims0 :: MapClaims where
  "accessClaims0 =
       [(''userId'', JString ''user-id''), (''username'', JString ''testuser''),
        (''sessionId'', JString ''session-id''), (''type'', JString ''access''),
        (''iss'', JString ''test-issuer''), (''exp'', JNumber 3605), (''iat'', JNumber 5)]"

definition accessToken0 :: TokenString where
  "accessToken0 =
     Compact ''HS256'' accessClaims0 (HMAC ''HS256'' ''test-secret'' ''HS256'' accessClaims0)"

definition refreshClaims0 :: MapClaims where
  "refreshClaims0 =
       [(''userId'', JString ''user-id''), (''username'', JString ''testuser''),
        (''sessionId'', JString ''session-id''), (''type'', JString ''refresh''),
        (''iss'', JString ''test-issuer''), (''exp'', JNumber 86405), (''iat'', JNumber 5)]"

definition refreshToken0 :: TokenString where
  "refreshToken0 =
     Compact ''HS256'' refreshClaims0 (HMAC ''HS256'' ''test-secret'' ''HS256'' refreshClaims0)"


definition mongoUser0 :: MongoUser where
  "mongoUser0 =
     \<lparr> MongoUser_ID = ''user-id'',
       MongoUser_Username = ''testuser'',
       MongoUser_PasswordHash = Bcrypt 4 ''salt'' ''password123'',
       MongoUser_Email = ''test@example.com'',
       MongoUser_Image = [],
       MongoUser_CreatedAt = 1000000000,
       MongoUser_UpdatedAt = 1000000000,
       MongoUser_DeletedAt = None \<rparr>"

definition session0 :: Session where
  "session0 =
     \<lparr> Session_ID = ''session-id'',
       Session_UserID = ''user-id'',
       Session_CreatedAt = 5000000000,
       Session_ExpiresAt = 86405000000000,
       Session_IsActive = True \<rparr>"

definition w0 :: World where
  "w0 = \<lparr> users = \<lparr> documents = [mongoUser0], reachable = True \<rparr>,
          sessions = \<lparr> keyspace = (\<lambda>k. None), connected = True, commands = [] \<rparr> \<rparr>"

definition w1 :: World where
  "w1 = \<lparr> users = \<lparr> documents = [mongoUser0], reachable = True \<rparr>,
          sessions = \<lparr> keyspace = (\<lambda>k. if k = ''session:session-id''
                                         then Some \<lparr> entry_value = SessionJSON session0,
                                                     entry_expireAt = Some 86405000000000 \<rparr>
                                         else None),
                       connected = True, commands = [] \<rparr> \<rparr>"

definition session1 :: Session where
  "session1 =
     \<lparr> Session_ID = ''session-id'',
       Session_UserID = ''user-id'',
       Session_CreatedAt = 5000000000,
       Session_ExpiresAt = 5500000000,
       Session_IsActive = True \<rparr>"

definition w2 :: World where
  "w2 = \<lparr> users = \<lparr> documents = [mongoUser0], reachable = True \<rparr>,
          sessions = \<lparr> keyspace = (\<lambda>k. if k = ''session:session-id''
                                         then Some \<lparr> entry_value = SessionJSON session1,
                                                     entry_expireAt = None \<rparr>
                                         else None),
                       connected = True, commands = [] \<rparr> \<rparr>"



section \<open>Facts about the token library and the codec\<close>

lemma Parse_Malformed: "Parse rt now (Malformed x) kf = Inl (Errorf ''token is malformed'')"
  by (simp add: Parse_def)

lemma Parse_not_HMAC:
  assumes "\<And>a. GetSigningMethod alg \<noteq> Some (SigningMethodHMAC a)"
  shows "\<exists>err. Parse rt now (Compact alg claims sg) (keyFunc s) = Inl err"
proof (cases "GetSigningMethod alg")
  case None
  then show ?thesis by (simp add: Parse_def)
next
  case (Some m)
  with assms have "\<And>a. m \<noteq> SigningMethodHMAC a" by simp
  then have "\<exists>err. keyFunc s \<lparr> Token_Method = m, Token_Header_alg = alg, Token_Claims = claims,
                              Token_Signature = sg, Token_Valid = False \<rparr> = Inl err"
    by (cases m) (auto simp add: keyFunc_def)
  then obtain err where "keyFunc s \<lparr> Token_Method = m, Token_Header_alg = alg,
      Token_Claims = claims, Token_Signature = sg, Token_Valid = False \<rparr> = Inl err" ..
  with Some show ?thesis by (simp add: Parse_def Let_def)
qed

lemma Parse_HMAC:
  assumes "GetSigningMethod alg = Some (SigningMethodHMAC a)"
  shows "Parse rt now (Compact alg claims sg) (keyFunc s) =
     (if \<not> Hash_Available rt
      then Inl (Errorf ''token signature is invalid: the requested hash function is unavailable'')
      else if sg \<noteq> HMAC a (Secret (config s)) alg claims
      then Inl (Errorf ''token signature is invalid: signature is invalid'')
      else case Validator_Validate claims now of
             Some err \<Rightarrow> Inl (Wrapf ''token has invalid claims'' err)
           | None \<Rightarrow> Inr \<lparr> Token_Method = SigningMethodHMAC a, Token_Header_alg = alg,
                            Token_Claims = claims, Token_Signature = sg, Token_Valid = True \<rparr>)"
  using assms
  by (simp add: Parse_def Let_def keyFunc_def SigningMethod_Verify_def Wrapf_def
      split: option.splits)

lemma Parse_Inr_D:
  assumes "Parse rt now tok (keyFunc s) = Inr t"
  shows "\<exists>alg a claims. GetSigningMethod alg = Some (SigningMethodHMAC a) \<and> Hash_Available rt
           \<and> tok = Compact alg claims (HMAC a (Secret (config s)) alg claims)
           \<and> Validator_Validate claims now = None
           \<and> Token_Claims t = claims \<and> Token_Valid t"
proof (cases tok)
  case (Malformed x)
  with assms show ?thesis by (simp add: Parse_Malformed)
next
  case (Compact alg claims sg)
  show ?thesis
  proof (cases "\<exists>a. GetSigningMethod alg = Some (SigningMethodHMAC a)")
    case False
    then have "\<And>a. GetSigningMethod alg \<noteq> Some (SigningMethodHMAC a)" by simp
    from Parse_not_HMAC [OF this, of rt now claims sg s] assms Compact show ?thesis by auto
  next
    case True
    then obtain a where a: "GetSigningMethod alg = Some (SigningMethodHMAC a)" ..
    have p: "Parse rt now (Compact alg claims sg) (keyFunc s) = Inr t"
      using assms Compact by simp
    have h: "Hash_Available rt"
      using p by (simp add: Parse_HMAC [OF a] split: if_splits)
    have g: "sg = HMAC a (Secret (config s)) alg claims"
      using p h by (simp add: Parse_HMAC [OF a] split: if_splits)
    have v: "Validator_Validate claims now = None"
      using p h g by (simp add: Parse_HMAC [OF a] split: option.splits)
    have c: "Token_Claims t = claims \<and> Token_Valid t"
      using p h g v by (auto simp add: Parse_HMAC [OF a])
    from a h g v c Compact show ?thesis by blast
  qed
qed

lemma validateToken_Parse_Inl:
  "Parse rt now tok (keyFunc s) = Inl err \<Longrightarrow>
     validateToken s rt now tok expectedType = Inl (Wrapf ''failed to parse token'' err)"
  by (simp add: validateToken_def)

lemma validateToken_Parse_Inr:
  assumes "Parse rt now tok (keyFunc s) = Inr t"
  shows "validateToken s rt now tok expectedType =
     (case map_of (Token_Claims t) ''type'' of
        Some (JString tokenType) \<Rightarrow>
          if tokenType \<noteq> expectedType then Inl (Errorf ''invalid token type'')
          else if stringClaim (Token_Claims t) ''userId'' = []
                  \<or> stringClaim (Token_Claims t) ''username'' = []
                  \<or> stringClaim (Token_Claims t) ''sessionId'' = []
          then Inl (Errorf ''missing required claims'')
          else Inr \<lparr> Claims_UserID = stringClaim (Token_Claims t) ''userId'',
                     Claims_Username = stringClaim (Token_Claims t) ''username'',
                     Claims_SessionID = stringClaim (Token_Claims t) ''sessionId'',
                     Claims_Type = tokenType \<rparr>
      | _ \<Rightarrow> Inl (Errorf ''invalid token type''))"
proof -
  from Parse_Inr_D [OF assms] have "Token_Valid t" by blast
  with assms show ?thesis
    by (simp add: validateToken_def Let_def split: option.splits JSONValue.splits)
qed

lemma generateAccessToken_eq:
  "generateAccessToken s rt now userID username sessionID =
     (if Hash_Available rt
      then Inr (Compact ''HS256''
             [(''userId'', JString userID), (''username'', JString username),
              (''sessionId'', JString sessionID), (''type'', JString ''access''),
              (''iss'', JString (Issuer (config s))),
              (''exp'', JNumber (Time_Unix (Time_Add now (AccessExpiry (config s))))),
              (''iat'', JNumber (Time_Unix now))]
             (HMAC ''HS256'' (Secret (config s)) ''HS256''
                [(''userId'', JString userID), (''username'', JString username),
                 (''sessionId'', JString sessionID), (''type'', JString ''access''),
                 (''iss'', JString (Issuer (config s))),
                 (''exp'', JNumber (Time_Unix (Time_Add now (AccessExpiry (config s))))),
                 (''iat'', JNumber (Time_Unix now))]))
      else Inl (Errorf ''the requested hash function is unavailable''))"
  by (simp add: generateAccessToken_def SignedString_def NewWithClaims_HS256_def
      TokenTypeAccess_def Let_def)

lemma generateRefreshToken_eq:
  "generateRefreshToken s rt now userID username sessionID =
     (if Hash_Available rt
      then Inr (Compact ''HS256''
             [(''userId'', JString userID), (''username'', JString username),
              (''sessionId'', JString sessionID), (''type'', JString ''refresh''),
              (''iss'', JString (Issuer (config s))),
              (''exp'', JNumber (Time_Unix (Time_Add now (RefreshExpiry (config s))))),
              (''iat'', JNumber (Time_Unix now))]
             (HMAC ''HS256'' (Secret (config s)) ''HS256''
                [(''userId'', JString userID), (''username'', JString username),
                 (''sessionId'', JString sessionID), (''type'', JString ''refresh''),
                 (''iss'', JString (Issuer (config s))),
                 (''exp'', JNumber (Time_Unix (Time_Add now (RefreshExpiry (config s))))),
                 (''iat'', JNumber (Time_Unix now))]))
      else Inl (Errorf ''the requested hash function is unavailable''))"
  by (simp add: generateRefreshToken_def SignedString_def NewWithClaims_HS256_def
      TokenTypeRefresh_def Let_def)

lemma Validator_Validate_issued:
  "map_of claims ''exp'' = Some (JNumber exp) \<Longrightarrow> map_of claims ''nbf'' = None \<Longrightarrow>
     Validator_Validate claims now =
       (if now < exp * 1000000000 then None else Some (Errorf ''token is expired''))"
  by (simp add: Validator_Validate_def verifyExpiresAt_def verifyNotBefore_def Time_Before_def)


lemma genr0: "generateRefreshToken s0 rt0 5000000000 ''user-id'' ''testuser'' ''session-id'' = Inr refreshToken0"
  by (simp add: generateRefreshToken_eq s0_def rt0_def refreshToken0_def refreshClaims0_def Time_Unix_def Time_Add_def)

lemma validateToken_Inr_D:
  assumes "validateToken s rt now tok expectedType = Inr claims"
  shows "Hash_Available rt \<and> tok \<noteq> Malformed [] \<and> Claims_Type claims = expectedType
     \<and> Claims_UserID claims \<noteq> [] \<and> Claims_Username claims \<noteq> [] \<and> Claims_SessionID claims \<noteq> []"
proof (cases "Parse rt now tok (keyFunc s)")
  case (Inl err)
  with assms show ?thesis by (simp add: validateToken_Parse_Inl)
next
  case (Inr t)
  from Parse_Inr_D [OF Inr] have h: "Hash_Available rt" and m: "tok \<noteq> Malformed []" by auto
  from assms have "Claims_Type claims = expectedType
     \<and> Claims_UserID claims \<noteq> [] \<and> Claims_Username claims \<noteq> [] \<and> Claims_SessionID claims \<noteq> []"
    by (auto simp add: validateToken_Parse_Inr [OF Inr]
        split: option.splits JSONValue.splits if_splits)
  with h m show ?thesis by simp
qed

lemma Parse_refreshToken0:
  "Parse rt0 6000000000 refreshToken0 (keyFunc s0) =
     Inr \<lparr> Token_Method = SigningMethodHMAC ''HS256'', Token_Header_alg = ''HS256'',
           Token_Claims = refreshClaims0,
           Token_Signature = HMAC ''HS256'' ''test-secret'' ''HS256'' refreshClaims0,
           Token_Valid = True \<rparr>"
proof -
  have m: "GetSigningMethod ''HS256'' = Some (SigningMethodHMAC ''HS256'')"
    by (simp add: GetSigningMethod_def)
  have v: "Validator_Validate refreshClaims0 6000000000 = None"
    by (simp add: Validator_Validate_issued [of _ 86405] refreshClaims0_def)
  show ?thesis
    unfolding refreshToken0_def
    by (simp add: Parse_HMAC [OF m] v rt0_def s0_def)
qed

lemma validate_refreshToken0:
  "validateToken s0 rt0 6000000000 refreshToken0 TokenTypeRefresh =
     Inr \<lparr> Claims_UserID = ''user-id'', Claims_Username = ''testuser'',
           Claims_SessionID = ''session-id'', Claims_Type = ''refresh'' \<rparr>"
  by (simp add: validateToken_Parse_Inr [OF Parse_refreshToken0] refreshClaims0_def
      stringClaim_def TokenTypeRefresh_def)

lemma validate_accessToken0_as_refresh:
  "validateToken s0 rt0 6000000000 accessToken0 TokenTypeRefresh = Inl (Errorf ''invalid token type'')"
proof -
  have m: "GetSigningMethod ''HS256'' = Some (SigningMethodHMAC ''HS256'')"
    by (simp add: GetSigningMethod_def)
  have v: "Validator_Validate accessClaims0 6000000000 = None"
    by (simp add: Validator_Validate_issued [of _ 3605] accessClaims0_def)
  have p: "Parse rt0 6000000000 accessToken0 (keyFunc s0) =
     Inr \<lparr> Token_Method = SigningMethodHMAC ''HS256'', Token_Header_alg = ''HS256'',
           Token_Claims = accessClaims0,
           Token_Signature = HMAC ''HS256'' ''test-secret'' ''HS256'' accessClaims0,
           Token_Valid = True \<rparr>"
    unfolding accessToken0_def
    by (simp add: Parse_HMAC [OF m] v rt0_def s0_def)
  show ?thesis
    by (simp add: validateToken_Parse_Inr [OF p] accessClaims0_def TokenTypeRefresh_def)
qed

lemma validateToken_Inr_claims:
  assumes "validateToken s rt now tok expectedType = Inr claims"
  shows "\<exists>alg payload sg. tok = Compact alg payload sg
     \<and> claims = \<lparr> Claims_UserID = stringClaim payload ''userId'',
                   Claims_Username = stringClaim payload ''username'',
                   Claims_SessionID = stringClaim payload ''sessionId'',
                   Claims_Type = expectedType \<rparr>"
proof (cases "Parse rt now tok (keyFunc s)")
  case (Inl err)
  with assms show ?thesis by (simp add: validateToken_Parse_Inl)
next
  case (Inr t)
  from Parse_Inr_D [OF Inr] obtain alg payload sg
    where tok: "tok = Compact alg payload sg" and c: "Token_Claims t = payload" by blast
  from assms have "claims = \<lparr> Claims_UserID = stringClaim (Token_Claims t) ''userId'',
                   Claims_Username = stringClaim (Token_Claims t) ''username'',
                   Claims_SessionID = stringClaim (Token_Claims t) ''sessionId'',
                   Claims_Type = expectedType \<rparr>"
    by (auto simp add: validateToken_Parse_Inr [OF Inr]
        split: option.splits JSONValue.splits if_splits)
  with tok c show ?thesis by blast
qed

lemma validateToken_claims_unique:
  assumes "validateToken s rt now tok expectedType = Inr claims"
    and "validateToken s rt now' tok expectedType = Inr claims'"
  shows "claims' = claims"
  using validateToken_Inr_claims [OF assms(1)] validateToken_Inr_claims [OF assms(2)] by auto

section \<open>Facts about the stores and the operations\<close>

lemma RedisSessionStore_Get_frame:
  "keyspace (snd (RedisSessionStore_Get st now sessionID r)) = keyspace r
   \<and> connected (snd (RedisSessionStore_Get st now sessionID r)) = connected r
   \<and> commands (snd (RedisSessionStore_Get st now sessionID r)) =
       commands r @ [GET (getKey st sessionID)]"
  by (simp add: RedisSessionStore_Get_def client_Get_def Let_def
      split: option.splits sum.splits RedisValue.splits)

lemma RefreshToken_Inl:
  "validateToken s rt now (RefreshTokenRequest_RefreshToken req) TokenTypeRefresh = Inl e \<Longrightarrow>
     RefreshToken s rt now req w = (Inl (Errorf ''invalid refresh token''), w)"
  by (simp add: RefreshToken_def)

lemma RefreshToken_Inr:
  assumes "validateToken s rt now (RefreshTokenRequest_RefreshToken req) TokenTypeRefresh = Inr claims"
  shows "RefreshToken s rt now req w =
    (let g = RedisSessionStore_Get (sessionStore s) now (Claims_SessionID claims) (sessions w) in
     (case fst g of
        Inl err \<Rightarrow> Inl (Errorf ''invalid session'')
      | Inr session \<Rightarrow>
          if \<not> Session_IsActive session \<or> Time_After now (Session_ExpiresAt session)
          then Inl (Errorf ''session expired'')
          else
            (case generateAccessToken s rt now (Claims_UserID claims)
                         (Claims_Username claims) (Claims_SessionID claims) of
               Inl err \<Rightarrow> Inl (Wrapf ''failed to generate access token'' err)
             | Inr accessToken \<Rightarrow>
                 Inr \<lparr> RefreshTokenResponse_AccessToken = accessToken,
                       RefreshTokenResponse_ExpiresAt = Time_Add now (AccessExpiry (config s)) \<rparr>),
      w\<lparr> sessions := snd g \<rparr>))"
  using assms
  by (cases "RedisSessionStore_Get (sessionStore s) now (Claims_SessionID claims) (sessions w)")
     (simp add: RefreshToken_def Let_def split: sum.splits)

lemma Get_session0:
  "fst (RedisSessionStore_Get (sessionStore s0) 6000000000 ''session-id'' (sessions w1)) = Inr session0"
  by (simp add: RedisSessionStore_Get_def client_Get_def getKey_def s0_def
      NewRedisSessionStore_def w1_def live_def json_Unmarshal_def Let_def)

lemma Get_missing:
  "fst (RedisSessionStore_Get (sessionStore s0) 6000000000 ''session-id'' (sessions w0))
     = Inl (Errorf ''session not found'')"
  by (simp add: RedisSessionStore_Get_def client_Get_def getKey_def s0_def
      NewRedisSessionStore_def w0_def redis_Nil_def Let_def)

lemma Get_session1:
  "fst (RedisSessionStore_Get (sessionStore s0) 6000000000 ''session-id'' (sessions w2)) = Inr session1"
  by (simp add: RedisSessionStore_Get_def client_Get_def getKey_def s0_def
      NewRedisSessionStore_def w2_def live_def json_Unmarshal_def Let_def)

lemma RedisSessionStore_Delete_frame:
  "connected (snd (RedisSessionStore_Delete st now sessionID r)) = connected r
   \<and> commands (snd (RedisSessionStore_Delete st now sessionID r)) =
       commands r @ [DEL (getKey st sessionID)]
   \<and> keyspace (snd (RedisSessionStore_Delete st now sessionID r)) =
       (if connected r then (keyspace r)(getKey st sessionID := None) else keyspace r)"
  by (auto simp add: RedisSessionStore_Delete_def client_Del_def Let_def
      split: option.splits)

lemma RedisSessionStore_Delete_absent:
  "connected r \<Longrightarrow> keyspace r (getKey st sessionID) = None \<Longrightarrow>
     fst (RedisSessionStore_Delete st now sessionID r) = Some (Errorf ''session not found'')"
  by (simp add: RedisSessionStore_Delete_def client_Del_def Let_def)

lemma Logout_Inl:
  "validateToken s rt now (LogoutRequest_RefreshToken req) TokenTypeRefresh = Inl e \<Longrightarrow>
     Logout s rt now req w = (Inr \<lparr> LogoutResponse_Message = ''Logged out successfully'' \<rparr>, w)"
  by (simp add: Logout_def Let_def)

lemma Logout_empty:
  "LogoutRequest_RefreshToken req = Malformed [] \<Longrightarrow>
     Logout s rt now req w = (Inr \<lparr> LogoutResponse_Message = ''Logged out successfully'' \<rparr>, w)"
  by (simp add: Logout_def Let_def)

lemma Logout_Inr:
  assumes "validateToken s rt now (LogoutRequest_RefreshToken req) TokenTypeRefresh = Inr claims"
  shows "Logout s rt now req w =
     (Inr \<lparr> LogoutResponse_Message = ''Logged out successfully'' \<rparr>,
      w\<lparr> sessions := snd (RedisSessionStore_Delete (sessionStore s) now
                             (Claims_SessionID claims) (sessions w)) \<rparr>)"
proof -
  from validateToken_Inr_D [OF assms] have "LogoutRequest_RefreshToken req \<noteq> Malformed []"
    by simp
  with assms show ?thesis
    by (cases "RedisSessionStore_Delete (sessionStore s) now (Claims_SessionID claims) (sessions w)")
       (simp add: Logout_def Let_def split: option.splits)
qed









lemma RedisSessionStore_Set_result:
  "RedisSessionStore_Set st now sessionID session expiration r =
     (if \<not> connected r
      then (Some (Wrapf ''failed to store session'' ErrClosed),
            r\<lparr> commands := commands r @ [SET (getKey st sessionID)] \<rparr>)
      else (None,
            r\<lparr> commands := commands r @ [SET (getKey st sessionID)],
               keyspace := (keyspace r)(getKey st sessionID \<mapsto>
                 \<lparr> entry_value = SessionJSON session,
                   entry_expireAt = (if 0 < expiration then Some (now + expiration) else None) \<rparr>) \<rparr>))"
  by (simp add: RedisSessionStore_Set_def client_Set_def json_Marshal_def Let_def)

text \<open>
  Where a failed operation leaves the world: \<open>Register\<close> that returns an error has
  added no user, and \<open>Login\<close> that returns an error has changed no key of the session
  store as long as signing works.
\<close>

lemma Register_error_adds_no_user:
  assumes "fst (Register s now ulid salt req w) = Inl err"
  shows "snd (Register s now ulid salt req w) = w"
  using assms
  by (auto simp add: Register_def Let_def userRepository_Create_def InsertOne_def
      split: sum.splits option.splits if_splits)

lemma Login_error_keeps_keys_when_signing_works:
  assumes "Hash_Available rt" and "fst (Login s rt now ulid req w) = Inl err"
  shows "keyspace (sessions (snd (Login s rt now ulid req w))) = keyspace (sessions w)
     \<and> users (snd (Login s rt now ulid req w)) = users w"
  using assms
  by (auto simp add: Login_def Let_def RedisSessionStore_Set_result generateAccessToken_eq
      generateRefreshToken_eq split: sum.splits option.splits if_splits)

section \<open>The claims\<close>

text \<open>
  Claim C1. For every \<open>Login\<close> and \<open>LoginByEmail\<close> request, the error returned when the
  user lookup fails is the error returned when the user exists and the password does not
  verify: both are \<open>invalid credentials\<close>, whatever the lookup's or bcrypt's own error
  was, and in both cases the world is left as it was.
\<close>

theorem invalid_credentials_indistinguishable:
  assumes "userRepository_GetByUsername (users w_a) (LoginRequest_Username req_a) = Inl e_a"
    and "userRepository_GetByUsername (users w_b) (LoginRequest_Username req_b) = Inr user_b"
    and "verifyPassword s (User_Password user_b) (LoginRequest_Password req_b) = Some e_b"
    and "userRepository_GetByEmail (users w_c) (LoginByEmailRequest_Email req_c) = Inl e_c"
    and "userRepository_GetByEmail (users w_d) (LoginByEmailRequest_Email req_d) = Inr user_d"
    and "verifyPassword s (User_Password user_d) (LoginByEmailRequest_Password req_d) = Some e_d"
  shows "Login s rt now_a ulid_a req_a w_a = (Inl (Errorf ''invalid credentials''), w_a)
     \<and> Login s rt now_b ulid_b req_b w_b = (Inl (Errorf ''invalid credentials''), w_b)
     \<and> fst (Login s rt now_a ulid_a req_a w_a) = fst (Login s rt now_b ulid_b req_b w_b)
     \<and> LoginByEmail s rt now_c ulid_c req_c w_c = (Inl (Errorf ''invalid credentials''), w_c)
     \<and> LoginByEmail s rt now_d ulid_d req_d w_d = (Inl (Errorf ''invalid credentials''), w_d)
     \<and> fst (LoginByEmail s rt now_c ulid_c req_c w_c) = fst (LoginByEmail s rt now_d ulid_d req_d w_d)"
  using assms by (simp add: Login_def LoginByEmail_def)

theorem invalid_credentials_indistinguishable_witness:
  "Login s0 rt0 5000000000 ''session-id''
      \<lparr> LoginRequest_Username = ''nonexistent'', LoginRequest_Password = ''password123'' \<rparr> w0
     = (Inl (Errorf ''invalid credentials''), w0)
   \<and> Login s0 rt0 5000000000 ''session-id''
      \<lparr> LoginRequest_Username = ''testuser'', LoginRequest_Password = ''wrongpassword'' \<rparr> w0
     = (Inl (Errorf ''invalid credentials''), w0)
   \<and> LoginByEmail s0 rt0 5000000000 ''session-id''
      \<lparr> LoginByEmailRequest_Email = ''nobody@example.com'',
        LoginByEmailRequest_Password = ''password123'' \<rparr> w0
     = (Inl (Errorf ''invalid credentials''), w0)
   \<and> LoginByEmail s0 rt0 5000000000 ''session-id''
      \<lparr> LoginByEmailRequest_Email = ''test@example.com'',
        LoginByEmailRequest_Password = ''wrongpassword'' \<rparr> w0
     = (Inl (Errorf ''invalid credentials''), w0)"
proof -
  have a1: "userRepository_GetByUsername (users w0) (LoginRequest_Username
      \<lparr> LoginRequest_Username = ''nonexistent'', LoginRequest_Password = ''password123'' \<rparr>)
      = Inl (Errorf ''user not found'')"
    by (simp add: userRepository_GetByUsername_def FindOne_def w0_def mongoUser0_def ErrNoDocuments_def)
  have a2: "userRepository_GetByUsername (users w0) (LoginRequest_Username
      \<lparr> LoginRequest_Username = ''testuser'', LoginRequest_Password = ''wrongpassword'' \<rparr>)
      = Inr (mongoUserToModel mongoUser0)"
    by (simp add: userRepository_GetByUsername_def FindOne_def w0_def mongoUser0_def)
  have a3: "verifyPassword s0 (User_Password (mongoUserToModel mongoUser0)) (LoginRequest_Password
      \<lparr> LoginRequest_Username = ''testuser'', LoginRequest_Password = ''wrongpassword'' \<rparr>)
      = Some (Errorf ''crypto/bcrypt: hashedPassword is not the hash of the given password'')"
    by (simp add: verifyPassword_def CompareHashAndPassword_def mongoUserToModel_def mongoUser0_def)
  have a4: "userRepository_GetByEmail (users w0) (LoginByEmailRequest_Email
      \<lparr> LoginByEmailRequest_Email = ''nobody@example.com'',
        LoginByEmailRequest_Password = ''password123'' \<rparr>)
      = Inl (Errorf ''user not found'')"
    by (simp add: userRepository_GetByEmail_def FindOne_def w0_def mongoUser0_def ErrNoDocuments_def)
  have a5: "userRepository_GetByEmail (users w0) (LoginByEmailRequest_Email
      \<lparr> LoginByEmailRequest_Email = ''test@example.com'',
        LoginByEmailRequest_Password = ''wrongpassword'' \<rparr>)
      = Inr (mongoUserToModel mongoUser0)"
    by (simp add: userRepository_GetByEmail_def FindOne_def w0_def mongoUser0_def)
  have a6: "verifyPassword s0 (User_Password (mongoUserToModel mongoUser0)) (LoginByEmailRequest_Password
      \<lparr> LoginByEmailRequest_Email = ''test@example.com'',
        LoginByEmailRequest_Password = ''wrongpassword'' \<rparr>)
      = Some (Errorf ''crypto/bcrypt: hashedPassword is not the hash of the given password'')"
    by (simp add: verifyPassword_def CompareHashAndPassword_def mongoUserToModel_def mongoUser0_def)
  from invalid_credentials_indistinguishable [OF a1 a2 a3 a4 a5 a6,
      of rt0 5000000000 "''session-id''" 5000000000 "''session-id''"
         5000000000 "''session-id''" 5000000000 "''session-id''"]
  show ?thesis by blast
qed



text \<open>
  Claim C3. The outcomes of \<open>RefreshToken\<close>, in order. If \<open>validateToken\<close> rejects the
  refresh token (for whatever reason), the error is \<open>invalid refresh token\<close>. Otherwise,
  if the session store's \<open>Get\<close> fails, it is \<open>invalid session\<close>. Otherwise, if the stored
  session is inactive or its expiry is before \<open>now\<close>, it is \<open>session expired\<close>. Otherwise
  the call succeeds: signing cannot fail in a process that has just verified a
  signature, and the response holds the access token \<open>generateAccessToken\<close> makes for the
  refresh token's user id, username and session id, with its expiry. The response has no
  other field: no refresh token is issued.
\<close>

theorem RefreshToken_outcomes:
  "(validateToken s rt now (RefreshTokenRequest_RefreshToken req) TokenTypeRefresh = Inl e
      \<longrightarrow> fst (RefreshToken s rt now req w) = Inl (Errorf ''invalid refresh token''))
   \<and> (validateToken s rt now (RefreshTokenRequest_RefreshToken req) TokenTypeRefresh = Inr claims
       \<and> fst (RedisSessionStore_Get (sessionStore s) now (Claims_SessionID claims) (sessions w)) = Inl e'
      \<longrightarrow> fst (RefreshToken s rt now req w) = Inl (Errorf ''invalid session''))
   \<and> (validateToken s rt now (RefreshTokenRequest_RefreshToken req) TokenTypeRefresh = Inr claims
       \<and> fst (RedisSessionStore_Get (sessionStore s) now (Claims_SessionID claims) (sessions w)) = Inr session
       \<and> (\<not> Session_IsActive session \<or> Session_ExpiresAt session < now)
      \<longrightarrow> fst (RefreshToken s rt now req w) = Inl (Errorf ''session expired''))
   \<and> (validateToken s rt now (RefreshTokenRequest_RefreshToken req) TokenTypeRefresh = Inr claims
       \<and> fst (RedisSessionStore_Get (sessionStore s) now (Claims_SessionID claims) (sessions w)) = Inr session
       \<and> Session_IsActive session \<and> \<not> Session_ExpiresAt session < now
      \<longrightarrow> (\<exists>payload sg.
            fst (RefreshToken s rt now req w) =
              Inr \<lparr> RefreshTokenResponse_AccessToken = Compact ''HS256'' payload sg,
                    RefreshTokenResponse_ExpiresAt = now + AccessExpiry (config s) \<rparr>
            \<and> generateAccessToken s rt now (Claims_UserID claims) (Claims_Username claims)
                  (Claims_SessionID claims) = Inr (Compact ''HS256'' payload sg)
            \<and> stringClaim payload ''userId'' = Claims_UserID claims
            \<and> stringClaim payload ''username'' = Claims_Username claims
            \<and> stringClaim payload ''sessionId'' = Claims_SessionID claims
            \<and> stringClaim payload ''type'' = TokenTypeAccess))"
proof (intro conjI impI)
  assume "validateToken s rt now (RefreshTokenRequest_RefreshToken req) TokenTypeRefresh = Inl e"
  then show "fst (RefreshToken s rt now req w) = Inl (Errorf ''invalid refresh token'')"
    by (simp add: RefreshToken_Inl)
next
  assume "validateToken s rt now (RefreshTokenRequest_RefreshToken req) TokenTypeRefresh = Inr claims
       \<and> fst (RedisSessionStore_Get (sessionStore s) now (Claims_SessionID claims) (sessions w)) = Inl e'"
  then show "fst (RefreshToken s rt now req w) = Inl (Errorf ''invalid session'')"
    by (simp add: RefreshToken_Inr Let_def)
next
  assume "validateToken s rt now (RefreshTokenRequest_RefreshToken req) TokenTypeRefresh = Inr claims
       \<and> fst (RedisSessionStore_Get (sessionStore s) now (Claims_SessionID claims) (sessions w)) = Inr session
       \<and> (\<not> Session_IsActive session \<or> Session_ExpiresAt session < now)"
  then show "fst (RefreshToken s rt now req w) = Inl (Errorf ''session expired'')"
    by (auto simp add: RefreshToken_Inr Let_def Time_After_def)
next
  assume a: "validateToken s rt now (RefreshTokenRequest_RefreshToken req) TokenTypeRefresh = Inr claims
       \<and> fst (RedisSessionStore_Get (sessionStore s) now (Claims_SessionID claims) (sessions w)) = Inr session
       \<and> Session_IsActive session \<and> \<not> Session_ExpiresAt session < now"
  then have v: "validateToken s rt now (RefreshTokenRequest_RefreshToken req) TokenTypeRefresh = Inr claims"
    by simp
  from validateToken_Inr_D [OF v] have h: "Hash_Available rt" by simp
  show "\<exists>payload sg.
            fst (RefreshToken s rt now req w) =
              Inr \<lparr> RefreshTokenResponse_AccessToken = Compact ''HS256'' payload sg,
                    RefreshTokenResponse_ExpiresAt = now + AccessExpiry (config s) \<rparr>
            \<and> generateAccessToken s rt now (Claims_UserID claims) (Claims_Username claims)
                  (Claims_SessionID claims) = Inr (Compact ''HS256'' payload sg)
            \<and> stringClaim payload ''userId'' = Claims_UserID claims
            \<and> stringClaim payload ''username'' = Claims_Username claims
            \<and> stringClaim payload ''sessionId'' = Claims_SessionID claims
            \<and> stringClaim payload ''type'' = TokenTypeAccess"
    using a h
    by (simp add: RefreshToken_Inr [OF v] Let_def Time_After_def Time_Add_def
        generateAccessToken_eq stringClaim_def TokenTypeAccess_def)
qed

theorem RefreshToken_outcomes_witness:
  "fst (RefreshToken s0 rt0 6000000000 \<lparr> RefreshTokenRequest_RefreshToken = accessToken0 \<rparr> w1)
     = Inl (Errorf ''invalid refresh token'')
   \<and> fst (RefreshToken s0 rt0 6000000000 \<lparr> RefreshTokenRequest_RefreshToken = refreshToken0 \<rparr> w0)
     = Inl (Errorf ''invalid session'')
   \<and> fst (RefreshToken s0 rt0 6000000000 \<lparr> RefreshTokenRequest_RefreshToken = refreshToken0 \<rparr> w2)
     = Inl (Errorf ''session expired'')
   \<and> (\<exists>payload sg.
        fst (RefreshToken s0 rt0 6000000000 \<lparr> RefreshTokenRequest_RefreshToken = refreshToken0 \<rparr> w1)
          = Inr \<lparr> RefreshTokenResponse_AccessToken = Compact ''HS256'' payload sg,
                  RefreshTokenResponse_ExpiresAt = 3606000000000 \<rparr>
        \<and> stringClaim payload ''userId'' = ''user-id''
        \<and> stringClaim payload ''username'' = ''testuser''
        \<and> stringClaim payload ''sessionId'' = ''session-id''
        \<and> stringClaim payload ''type'' = ''access'')"
proof -
  let ?c = "\<lparr> Claims_UserID = ''user-id'', Claims_Username = ''testuser'',
           Claims_SessionID = ''session-id'', Claims_Type = ''refresh'' \<rparr>"
  have a: "fst (RefreshToken s0 rt0 6000000000 \<lparr> RefreshTokenRequest_RefreshToken = accessToken0 \<rparr> w1)
     = Inl (Errorf ''invalid refresh token'')"
    using RefreshToken_outcomes [of s0 rt0 6000000000
        "\<lparr> RefreshTokenRequest_RefreshToken = accessToken0 \<rparr>" "Errorf ''invalid token type''" w1]
      validate_accessToken0_as_refresh
    by simp
  have b: "fst (RefreshToken s0 rt0 6000000000 \<lparr> RefreshTokenRequest_RefreshToken = refreshToken0 \<rparr> w0)
     = Inl (Errorf ''invalid session'')"
    using RefreshToken_outcomes [of s0 rt0 6000000000
        "\<lparr> RefreshTokenRequest_RefreshToken = refreshToken0 \<rparr>" _ w0 ?c "Errorf ''session not found''"]
      validate_refreshToken0 Get_missing
    by simp
  have c: "fst (RefreshToken s0 rt0 6000000000 \<lparr> RefreshTokenRequest_RefreshToken = refreshToken0 \<rparr> w2)
     = Inl (Errorf ''session expired'')"
    using RefreshToken_outcomes [of s0 rt0 6000000000
        "\<lparr> RefreshTokenRequest_RefreshToken = refreshToken0 \<rparr>" _ w2 ?c _ session1]
      validate_refreshToken0 Get_session1
    by (simp add: session1_def)
  have d: "\<exists>payload sg.
        fst (RefreshToken s0 rt0 6000000000 \<lparr> RefreshTokenRequest_RefreshToken = refreshToken0 \<rparr> w1)
          = Inr \<lparr> RefreshTokenResponse_AccessToken = Compact ''HS256'' payload sg,
                  RefreshTokenResponse_ExpiresAt = 3606000000000 \<rparr>
        \<and> stringClaim payload ''userId'' = ''user-id''
        \<and> stringClaim payload ''username'' = ''testuser''
        \<and> stringClaim payload ''sessionId'' = ''session-id''
        \<and> stringClaim payload ''type'' = ''access''"
    using RefreshToken_outcomes [of s0 rt0 6000000000
        "\<lparr> RefreshTokenRequest_RefreshToken = refreshToken0 \<rparr>" _ w1 ?c _ session0]
      validate_refreshToken0 Get_session0
    by (simp add: session0_def s0_def TokenTypeAccess_def) blast
  from a b c d show ?thesis by blast
qed

text \<open>
  Claim C4. \<open>Logout\<close> returns the acknowledgment and no error for every request and
  world, and never touches the users. Without a refresh token, and with one that
  \<open>validateToken\<close> rejects, the world is unchanged. With a valid one it sends one \<open>DEL\<close>
  of the session's key, and if the server answers the key is gone. A second \<open>Logout\<close>
  with the same token also returns the acknowledgment, although the store's \<open>Delete\<close>
  now reports \<open>session not found\<close>, and changes no key.
\<close>

theorem Logout_always_succeeds:
  "fst (Logout s rt now req w) = Inr \<lparr> LogoutResponse_Message = ''Logged out successfully'' \<rparr>
   \<and> users (snd (Logout s rt now req w)) = users w
   \<and> (LogoutRequest_RefreshToken req = Malformed [] \<longrightarrow> snd (Logout s rt now req w) = w)
   \<and> (validateToken s rt now (LogoutRequest_RefreshToken req) TokenTypeRefresh = Inl e
        \<longrightarrow> snd (Logout s rt now req w) = w)
   \<and> (validateToken s rt now (LogoutRequest_RefreshToken req) TokenTypeRefresh = Inr claims
        \<longrightarrow> commands (sessions (snd (Logout s rt now req w))) =
              commands (sessions w) @ [DEL (getKey (sessionStore s) (Claims_SessionID claims))]
          \<and> (connected (sessions w) \<longrightarrow>
                keyspace (sessions (snd (Logout s rt now req w))) =
                  (keyspace (sessions w))(getKey (sessionStore s) (Claims_SessionID claims) := None)
              \<and> fst (RedisSessionStore_Delete (sessionStore s) later (Claims_SessionID claims)
                       (sessions (snd (Logout s rt now req w)))) = Some (Errorf ''session not found'')
              \<and> fst (Logout s rt later req (snd (Logout s rt now req w))) =
                  Inr \<lparr> LogoutResponse_Message = ''Logged out successfully'' \<rparr>
              \<and> keyspace (sessions (snd (Logout s rt later req (snd (Logout s rt now req w))))) =
                  keyspace (sessions (snd (Logout s rt now req w)))))"
proof -
  have r: "fst (Logout s rt t req v) = Inr \<lparr> LogoutResponse_Message = ''Logged out successfully'' \<rparr>"
    for t v by (simp add: Logout_def Let_def)
  have u: "users (snd (Logout s rt now req w)) = users w"
    by (simp add: Logout_def Let_def split: sum.splits prod.splits option.splits)
  have k: "keyspace (sessions (snd (Logout s rt later req v))) = keyspace (sessions v)"
    if v: "validateToken s rt now (LogoutRequest_RefreshToken req) TokenTypeRefresh = Inr claims"
      and a: "keyspace (sessions v) (getKey (sessionStore s) (Claims_SessionID claims)) = None"
    for v
  proof (cases "validateToken s rt later (LogoutRequest_RefreshToken req) TokenTypeRefresh")
    case (Inl err)
    then show ?thesis by (simp add: Logout_Inl)
  next
    case (Inr claims')
    from validateToken_claims_unique [OF v Inr] have "claims' = claims" .
    with Inr a show ?thesis
      by (auto simp add: Logout_Inr [OF Inr] RedisSessionStore_Delete_frame)
  qed
  show ?thesis
  proof (intro conjI impI)
    show "fst (Logout s rt now req w) = Inr \<lparr> LogoutResponse_Message = ''Logged out successfully'' \<rparr>"
      by (rule r)
    show "users (snd (Logout s rt now req w)) = users w" by (rule u)
    show "snd (Logout s rt now req w) = w" if "LogoutRequest_RefreshToken req = Malformed []"
      using that by (simp add: Logout_empty)
    show "snd (Logout s rt now req w) = w"
      if "validateToken s rt now (LogoutRequest_RefreshToken req) TokenTypeRefresh = Inl e"
      using that by (simp add: Logout_Inl)
  next
    assume v: "validateToken s rt now (LogoutRequest_RefreshToken req) TokenTypeRefresh = Inr claims"
    show "commands (sessions (snd (Logout s rt now req w))) =
              commands (sessions w) @ [DEL (getKey (sessionStore s) (Claims_SessionID claims))]"
      by (simp add: Logout_Inr [OF v] RedisSessionStore_Delete_frame)
    assume c: "connected (sessions w)"
    show ks: "keyspace (sessions (snd (Logout s rt now req w))) =
                  (keyspace (sessions w))(getKey (sessionStore s) (Claims_SessionID claims) := None)"
      using c by (simp add: Logout_Inr [OF v] RedisSessionStore_Delete_frame)
    have c': "connected (sessions (snd (Logout s rt now req w)))"
      using c by (simp add: Logout_Inr [OF v] RedisSessionStore_Delete_frame)
    from ks have a: "keyspace (sessions (snd (Logout s rt now req w)))
        (getKey (sessionStore s) (Claims_SessionID claims)) = None" by simp
    show "fst (RedisSessionStore_Delete (sessionStore s) later (Claims_SessionID claims)
                       (sessions (snd (Logout s rt now req w)))) = Some (Errorf ''session not found'')"
      using c' a by (rule RedisSessionStore_Delete_absent)
    show "fst (Logout s rt later req (snd (Logout s rt now req w))) =
                  Inr \<lparr> LogoutResponse_Message = ''Logged out successfully'' \<rparr>"
      by (rule r)
    show "keyspace (sessions (snd (Logout s rt later req (snd (Logout s rt now req w))))) =
                  keyspace (sessions (snd (Logout s rt now req w)))"
      using v a by (rule k)
  qed
qed

theorem Logout_always_succeeds_witness:
  "fst (Logout s0 rt0 6000000000 \<lparr> LogoutRequest_RefreshToken = Malformed [] \<rparr> w1)
     = Inr \<lparr> LogoutResponse_Message = ''Logged out successfully'' \<rparr>
   \<and> snd (Logout s0 rt0 6000000000 \<lparr> LogoutRequest_RefreshToken = Malformed [] \<rparr> w1) = w1
   \<and> snd (Logout s0 rt0 6000000000 \<lparr> LogoutRequest_RefreshToken = accessToken0 \<rparr> w1) = w1
   \<and> keyspace (sessions w1) ''session:session-id'' \<noteq> None
   \<and> keyspace (sessions (snd (Logout s0 rt0 6000000000
        \<lparr> LogoutRequest_RefreshToken = refreshToken0 \<rparr> w1))) ''session:session-id'' = None
   \<and> fst (Logout s0 rt0 7000000000 \<lparr> LogoutRequest_RefreshToken = refreshToken0 \<rparr>
        (snd (Logout s0 rt0 6000000000 \<lparr> LogoutRequest_RefreshToken = refreshToken0 \<rparr> w1)))
     = Inr \<lparr> LogoutResponse_Message = ''Logged out successfully'' \<rparr>
   \<and> fst (RedisSessionStore_Delete (sessionStore s0) 7000000000 ''session-id''
        (sessions (snd (Logout s0 rt0 6000000000
           \<lparr> LogoutRequest_RefreshToken = refreshToken0 \<rparr> w1))))
     = Some (Errorf ''session not found'')"
proof -
  let ?c = "\<lparr> Claims_UserID = ''user-id'', Claims_Username = ''testuser'',
           Claims_SessionID = ''session-id'', Claims_Type = ''refresh'' \<rparr>"
  have k: "keyspace (sessions w1) ''session:session-id'' \<noteq> None"
    by (simp add: w1_def)
  have c: "connected (sessions w1)" by (simp add: w1_def)
  have g: "getKey (sessionStore s0) ''session-id'' = ''session:session-id''"
    by (simp add: getKey_def s0_def NewRedisSessionStore_def)
  from Logout_always_succeeds [of s0 rt0 6000000000
      "\<lparr> LogoutRequest_RefreshToken = Malformed [] \<rparr>" w1]
  have a: "fst (Logout s0 rt0 6000000000 \<lparr> LogoutRequest_RefreshToken = Malformed [] \<rparr> w1)
     = Inr \<lparr> LogoutResponse_Message = ''Logged out successfully'' \<rparr>
   \<and> snd (Logout s0 rt0 6000000000 \<lparr> LogoutRequest_RefreshToken = Malformed [] \<rparr> w1) = w1"
    by simp
  from Logout_always_succeeds [of s0 rt0 6000000000
      "\<lparr> LogoutRequest_RefreshToken = accessToken0 \<rparr>" w1 "Errorf ''invalid token type''"]
    validate_accessToken0_as_refresh
  have b: "snd (Logout s0 rt0 6000000000 \<lparr> LogoutRequest_RefreshToken = accessToken0 \<rparr> w1) = w1"
    by simp
  from Logout_always_succeeds [of s0 rt0 6000000000
      "\<lparr> LogoutRequest_RefreshToken = refreshToken0 \<rparr>" w1 _ ?c 7000000000]
    validate_refreshToken0 c g
  have d: "keyspace (sessions (snd (Logout s0 rt0 6000000000
        \<lparr> LogoutRequest_RefreshToken = refreshToken0 \<rparr> w1))) ''session:session-id'' = None
   \<and> fst (Logout s0 rt0 7000000000 \<lparr> LogoutRequest_RefreshToken = refreshToken0 \<rparr>
        (snd (Logout s0 rt0 6000000000 \<lparr> LogoutRequest_RefreshToken = refreshToken0 \<rparr> w1)))
     = Inr \<lparr> LogoutResponse_Message = ''Logged out successfully'' \<rparr>
   \<and> fst (RedisSessionStore_Delete (sessionStore s0) 7000000000 ''session-id''
        (sessions (snd (Logout s0 rt0 6000000000
           \<lparr> LogoutRequest_RefreshToken = refreshToken0 \<rparr> w1))))
     = Some (Errorf ''session not found'')"
    by simp
  from a b k d show ?thesis by blast
qed




text \<open>
  Claim C7. A refresh token is never accepted as an access token. Any token string that
  \<open>jwt.Parse\<close> accepts under the service's key function (validly signed, unexpired) and
  whose \<open>type\<close> claim is \<open>refresh\<close> makes \<open>ValidateAccessToken\<close> return the error
  \<open>invalid token type\<close>; a token \<open>generateRefreshToken\<close> produced never yields claims,
  and before its expiry the error is that same type error.
\<close>

theorem refresh_token_is_no_access_token:
  "(Parse rt now tok (keyFunc s) = Inr t \<and>
      map_of (Token_Claims t) ''type'' = Some (JString TokenTypeRefresh)
      \<longrightarrow> ValidateAccessToken s rt now tok = Inl (Errorf ''invalid token type''))
   \<and> (generateRefreshToken s rt issued userID username sessionID = Inr tok
      \<longrightarrow> (\<exists>err. ValidateAccessToken s rt now tok = Inl err)
          \<and> (now < Time_Unix (Time_Add issued (RefreshExpiry (config s))) * 1000000000
               \<longrightarrow> ValidateAccessToken s rt now tok = Inl (Errorf ''invalid token type'')))"
proof (intro conjI impI)
  assume "Parse rt now tok (keyFunc s) = Inr t \<and>
      map_of (Token_Claims t) ''type'' = Some (JString TokenTypeRefresh)"
  then show "ValidateAccessToken s rt now tok = Inl (Errorf ''invalid token type'')"
    by (simp add: ValidateAccessToken_def validateToken_Parse_Inr TokenTypeAccess_def
        TokenTypeRefresh_def)
next
  let ?claims = "[(''userId'', JString userID), (''username'', JString username),
     (''sessionId'', JString sessionID), (''type'', JString ''refresh''),
     (''iss'', JString (Issuer (config s))),
     (''exp'', JNumber (Time_Unix (Time_Add issued (RefreshExpiry (config s))))),
     (''iat'', JNumber (Time_Unix issued))]"
  assume g: "generateRefreshToken s rt issued userID username sessionID = Inr tok"
  then have h: "Hash_Available rt"
    by (simp add: generateRefreshToken_eq split: if_splits)
  with g have tok: "tok = Compact ''HS256'' ?claims
      (HMAC ''HS256'' (Secret (config s)) ''HS256'' ?claims)"
    by (simp add: generateRefreshToken_eq)
  have m: "GetSigningMethod ''HS256'' = Some (SigningMethodHMAC ''HS256'')"
    by (simp add: GetSigningMethod_def)
  have p: "Parse rt now tok (keyFunc s) =
      (if now < Time_Unix (Time_Add issued (RefreshExpiry (config s))) * 1000000000
       then Inr \<lparr> Token_Method = SigningMethodHMAC ''HS256'', Token_Header_alg = ''HS256'',
              Token_Claims = ?claims,
              Token_Signature = HMAC ''HS256'' (Secret (config s)) ''HS256'' ?claims,
              Token_Valid = True \<rparr>
       else Inl (Wrapf ''token has invalid claims'' (Errorf ''token is expired'')))"
    unfolding tok using h by (simp add: Parse_HMAC [OF m] Validator_Validate_issued)
  show "\<exists>err. ValidateAccessToken s rt now tok = Inl err"
  proof (cases "now < Time_Unix (Time_Add issued (RefreshExpiry (config s))) * 1000000000")
    case True
    with p have "Parse rt now tok (keyFunc s) =
      Inr \<lparr> Token_Method = SigningMethodHMAC ''HS256'', Token_Header_alg = ''HS256'',
              Token_Claims = ?claims,
              Token_Signature = HMAC ''HS256'' (Secret (config s)) ''HS256'' ?claims,
              Token_Valid = True \<rparr>" by simp
    then show ?thesis
      by (simp add: ValidateAccessToken_def validateToken_Parse_Inr TokenTypeAccess_def)
  next
    case False
    with p have "Parse rt now tok (keyFunc s) =
       Inl (Wrapf ''token has invalid claims'' (Errorf ''token is expired''))" by simp
    then show ?thesis
      by (simp add: ValidateAccessToken_def validateToken_Parse_Inl)
  qed
  assume "now < Time_Unix (Time_Add issued (RefreshExpiry (config s))) * 1000000000"
  with p have "Parse rt now tok (keyFunc s) =
      Inr \<lparr> Token_Method = SigningMethodHMAC ''HS256'', Token_Header_alg = ''HS256'',
              Token_Claims = ?claims,
              Token_Signature = HMAC ''HS256'' (Secret (config s)) ''HS256'' ?claims,
              Token_Valid = True \<rparr>" by simp
  then show "ValidateAccessToken s rt now tok = Inl (Errorf ''invalid token type'')"
    by (simp add: ValidateAccessToken_def validateToken_Parse_Inr TokenTypeAccess_def)
qed

theorem refresh_token_is_no_access_token_witness:
  "generateRefreshToken s0 rt0 5000000000 ''user-id'' ''testuser'' ''session-id'' = Inr refreshToken0
   \<and> map_of refreshClaims0 ''type'' = Some (JString TokenTypeRefresh)
   \<and> (\<exists>t. Parse rt0 6000000000 refreshToken0 (keyFunc s0) = Inr t)
   \<and> ValidateAccessToken s0 rt0 6000000000 refreshToken0 = Inl (Errorf ''invalid token type'')"
proof -
  have t: "map_of refreshClaims0 ''type'' = Some (JString TokenTypeRefresh)"
    by (simp add: refreshClaims0_def TokenTypeRefresh_def)
  have "ValidateAccessToken s0 rt0 6000000000 refreshToken0 = Inl (Errorf ''invalid token type'')"
    using refresh_token_is_no_access_token
      [of rt0 6000000000 refreshToken0 s0 "\<lparr> Token_Method = SigningMethodHMAC ''HS256'',
           Token_Header_alg = ''HS256'', Token_Claims = refreshClaims0,
           Token_Signature = HMAC ''HS256'' ''test-secret'' ''HS256'' refreshClaims0,
           Token_Valid = True \<rparr>"]
      Parse_refreshToken0 t
    by simp
  with genr0 t Parse_refreshToken0 show ?thesis by simp
qed

text \<open>
  Claim C8. Expiry boundary: a token whose \<open>exp\<close> claim is the instant of validation
  exactly is rejected: the validator reports \<open>token is expired\<close>, \<open>validateToken\<close>
  returns an error whatever else the token holds, and for a token signed with the
  service's secret that error is the expiry error.
\<close>

theorem token_expired_at_exp:
  assumes "map_of claims ''exp'' = Some (JNumber exp)" and "now = exp * 1000000000"
  shows "verifyExpiresAt claims now = Some (Errorf ''token is expired'')
     \<and> (\<exists>err. validateToken s rt now (Compact alg claims sg) expectedType = Inl err)
     \<and> (Hash_Available rt \<and> GetSigningMethod alg = Some (SigningMethodHMAC alg)
          \<and> sg = HMAC alg (Secret (config s)) alg claims
        \<longrightarrow> validateToken s rt now (Compact alg claims sg) expectedType =
            Inl (Errorf ''failed to parse token: token has invalid claims: token is expired''))"
proof (intro conjI impI)
  show e: "verifyExpiresAt claims now = Some (Errorf ''token is expired'')"
    using assms by (simp add: verifyExpiresAt_def Time_Before_def)
  then have v: "Validator_Validate claims now = Some (Errorf ''token is expired'')"
    by (simp add: Validator_Validate_def)
  show "\<exists>err. validateToken s rt now (Compact alg claims sg) expectedType = Inl err"
  proof (cases "Parse rt now (Compact alg claims sg) (keyFunc s)")
    case (Inl err)
    then show ?thesis by (simp add: validateToken_Parse_Inl)
  next
    case (Inr t)
    from Parse_Inr_D [OF Inr] v show ?thesis by auto
  qed
  assume "Hash_Available rt \<and> GetSigningMethod alg = Some (SigningMethodHMAC alg)
          \<and> sg = HMAC alg (Secret (config s)) alg claims"
  then have "Parse rt now (Compact alg claims sg) (keyFunc s) =
      Inl (Wrapf ''token has invalid claims'' (Errorf ''token is expired''))"
    using v by (simp add: Parse_HMAC)
  then show "validateToken s rt now (Compact alg claims sg) expectedType =
            Inl (Errorf ''failed to parse token: token has invalid claims: token is expired'')"
    by (simp add: validateToken_Parse_Inl Wrapf_def)
qed

theorem token_expired_at_exp_witness:
  "map_of accessClaims0 ''exp'' = Some (JNumber 3605)
   \<and> validateToken s0 rt0 3605000000000 accessToken0 TokenTypeAccess =
       Inl (Errorf ''failed to parse token: token has invalid claims: token is expired'')"
proof -
  have e: "map_of accessClaims0 ''exp'' = Some (JNumber 3605)"
    by (simp add: accessClaims0_def)
  have n: "(3605000000000::int) = 3605 * 1000000000" by simp
  have m: "GetSigningMethod ''HS256'' = Some (SigningMethodHMAC ''HS256'')"
    by (simp add: GetSigningMethod_def)
  from token_expired_at_exp [OF e n, of s0 rt0 "''HS256''"
      "HMAC ''HS256'' ''test-secret'' ''HS256'' accessClaims0" TokenTypeAccess] m e
  show ?thesis by (simp add: accessToken0_def rt0_def s0_def)
qed

text \<open>
  Claim C9. \<open>RefreshToken\<close> never writes to the session store: whatever the request
  and the world, the keys of the Redis server, its availability and the users are after
  the call what they were before, and the commands the call sent are none (the token was
  rejected) or one \<open>GET\<close> of the session's key.
\<close>

theorem RefreshToken_only_reads_session_store:
  "keyspace (sessions (snd (RefreshToken s rt now req w))) = keyspace (sessions w)
   \<and> connected (sessions (snd (RefreshToken s rt now req w))) = connected (sessions w)
   \<and> users (snd (RefreshToken s rt now req w)) = users w
   \<and> commands (sessions (snd (RefreshToken s rt now req w))) =
       commands (sessions w) @
         (case validateToken s rt now (RefreshTokenRequest_RefreshToken req) TokenTypeRefresh of
            Inl err \<Rightarrow> []
          | Inr claims \<Rightarrow> [GET (getKey (sessionStore s) (Claims_SessionID claims))])"
proof (cases "validateToken s rt now (RefreshTokenRequest_RefreshToken req) TokenTypeRefresh")
  case (Inl err)
  then show ?thesis by (simp add: RefreshToken_Inl)
next
  case (Inr claims)
  then show ?thesis
    by (simp add: RefreshToken_Inr [OF Inr] Let_def RedisSessionStore_Get_frame)
qed

theorem RefreshToken_only_reads_session_store_witness:
  "keyspace (sessions (snd (RefreshToken s0 rt0 6000000000
       \<lparr> RefreshTokenRequest_RefreshToken = refreshToken0 \<rparr> w1))) = keyspace (sessions w1)
   \<and> commands (sessions (snd (RefreshToken s0 rt0 6000000000
       \<lparr> RefreshTokenRequest_RefreshToken = refreshToken0 \<rparr> w1))) = [GET ''session:session-id'']"
  using RefreshToken_only_reads_session_store
    [of s0 rt0 6000000000 "\<lparr> RefreshTokenRequest_RefreshToken = refreshToken0 \<rparr>" w1]
    validate_refreshToken0
  by (simp add: getKey_def s0_def NewRedisSessionStore_def w1_def)

text \<open>
  Claim C10. Algorithm pinning: a token whose header names a signing method outside
  the HMAC family (\<open>none\<close>, RSA, ECDSA, an unknown name) is rejected by \<open>validateToken\<close>,
  by \<open>ValidateAccessToken\<close> and by \<open>RefreshToken\<close>, whatever its claims and
  signature.
\<close>

theorem non_hmac_alg_rejected:
  assumes "\<And>a. GetSigningMethod alg \<noteq> Some (SigningMethodHMAC a)"
  shows "(\<exists>err. validateToken s rt now (Compact alg claims sg) expectedType = Inl err)
     \<and> (\<exists>err. ValidateAccessToken s rt now (Compact alg claims sg) = Inl err)
     \<and> fst (RefreshToken s rt now \<lparr> RefreshTokenRequest_RefreshToken = Compact alg claims sg \<rparr> w)
         = Inl (Errorf ''invalid refresh token'')"
proof -
  from Parse_not_HMAC [OF assms]
  obtain err where "Parse rt now (Compact alg claims sg) (keyFunc s) = Inl err" by blast
  then have v: "validateToken s rt now (Compact alg claims sg) ty =
      Inl (Wrapf ''failed to parse token'' err)" for ty
    by (rule validateToken_Parse_Inl)
  show ?thesis
    by (simp add: ValidateAccessToken_def RefreshToken_def v)
qed

theorem non_hmac_alg_rejected_witness:
  "GetSigningMethod ''none'' = Some SigningMethodNone
   \<and> (\<exists>err. ValidateAccessToken s0 rt0 6000000000
              (Compact ''none'' accessClaims0 (SignatureBytes [])) = Inl err)
   \<and> fst (RefreshToken s0 rt0 6000000000
        \<lparr> RefreshTokenRequest_RefreshToken = Compact ''none'' refreshClaims0 (SignatureBytes []) \<rparr>
        w1) = Inl (Errorf ''invalid refresh token'')"
proof -
  have n: "GetSigningMethod ''none'' = Some SigningMethodNone"
    by (simp add: GetSigningMethod_def)
  then have h: "\<And>a. GetSigningMethod ''none'' \<noteq> Some (SigningMethodHMAC a)" by simp
  from non_hmac_alg_rejected [OF h, of s0 rt0 6000000000 accessClaims0 "SignatureBytes []"]
    non_hmac_alg_rejected [OF h, of s0 rt0 6000000000 refreshClaims0 "SignatureBytes []" _ w1] n
  show ?thesis by blast
qed

end
